theory Spec2Isabelle
  imports Main
begin

text \<open>
  A model of package \<^verbatim>\<open>httpserver\<close> of ssrf-sheriff: the readiness prober
  (\<^verbatim>\<open>waitUntilAvailable\<close>, \<^verbatim>\<open>wrapNetErr\<close>), the keep-alive listener, and the lifecycle
  handle (\<^verbatim>\<open>NewHandle\<close>, \<^verbatim>\<open>Addr\<close>, \<^verbatim>\<open>Start\<close>, \<^verbatim>\<open>Shutdown\<close>) with its serve
  goroutine and completion channel. The network, the \<^verbatim>\<open>http.Server\<close> and the scheduler
  are the surroundings: what they return is an argument of each function.
\<close>

section \<open>Errors\<close>

text \<open>
  Go's \<^verbatim>\<open>error\<close> values as a datatype. A nil error is \<open>None\<close> of \<open>error option\<close>.
  \<^item> \<open>DeadlineExceeded\<close> is \<^verbatim>\<open>context.DeadlineExceeded\<close>; its type implements
    \<^verbatim>\<open>net.Error\<close> with \<^verbatim>\<open>Timeout() = true\<close>.
  \<^item> \<open>ErrServerClosed\<close> is \<^verbatim>\<open>http.ErrServerClosed\<close>, compared by identity.
  \<^item> \<open>NetError t m\<close> is any other value implementing \<^verbatim>\<open>net.Error\<close>, with the
    answer \<open>t\<close> of its \<^verbatim>\<open>Timeout()\<close> and its text \<open>m\<close>.
  \<^item> \<open>ErrorString m\<close> is the result of \<^verbatim>\<open>errors.New(m)\<close>, and any other error
    that does not implement \<^verbatim>\<open>net.Error\<close>.
  \<^item> \<open>Errorf f as\<close> is the result of \<^verbatim>\<open>fmt.Errorf(f, as...)\<close>: the format and
    its arguments are kept as they are passed, the text is not rendered.
  \<open>ArgSprintf f as\<close> is the string \<^verbatim>\<open>fmt.Sprintf(f, as...)\<close> passed as an argument,
  \<open>ArgNil\<close> a nil error passed as an argument.
\<close>

type_synonym Time = nat

datatype error =
    DeadlineExceeded
  | ErrServerClosed
  | NetError bool string
  | ErrorString string
  | Errorf string "fmt_arg list"
and fmt_arg =
    ArgString string
  | ArgTime Time
  | ArgNil
  | ArgError error
  | ArgSprintf string "fmt_arg list"

text \<open>
  The type assertion \<^verbatim>\<open>err.(net.Error)\<close> of \<^verbatim>\<open>wrapNetErr\<close>: \<open>Some t\<close> when the value
  implements \<^verbatim>\<open>net.Error\<close>, \<open>t\<close> being what its \<^verbatim>\<open>Timeout()\<close> returns.
\<close>

fun asNetError :: "error \<Rightarrow> bool option" where
  "asNetError DeadlineExceeded = Some True"
| "asNetError (NetError t m) = Some t"
| "asNetError ErrServerClosed = None"
| "asNetError (ErrorString m) = None"
| "asNetError (Errorf f as) = None"

definition isTimeout :: "error \<Rightarrow> bool" where
  "isTimeout err = (asNetError err = Some True)"

text \<open>
  \<^verbatim>\<open>wrapNetErr(err, msg, args...)\<close>: nil stays nil, a \<^verbatim>\<open>net.Error\<close> timeout becomes
  \<^verbatim>\<open>context.DeadlineExceeded\<close>, every other error is wrapped by
  \<^verbatim>\<open>fmt.Errorf("%s: %v", msg, err)\<close>, where \<open>msg\<close> is formatted with \<open>args\<close> first when
  there are any.
\<close>

fun wrapNetErr :: "error option \<Rightarrow> string \<Rightarrow> fmt_arg list \<Rightarrow> error option" where
  "wrapNetErr None msg args = None"
| "wrapNetErr (Some err) msg args =
     (if asNetError err = Some True then Some DeadlineExceeded
      else Some (Errorf ''%s: %v''
             [if length args > 0 then ArgSprintf msg args else ArgString msg,
              ArgError err]))"

section \<open>The readiness prober\<close>

text \<open>
  A \<^verbatim>\<open>context.Context\<close> as the prober sees it: what \<^verbatim>\<open>ctx.Deadline()\<close> returns, and
  whether the context has been cancelled (which only the dialer can observe: the prober
  passes the context to \<^verbatim>\<open>DialContext\<close> and reads nothing of it but the deadline).
\<close>

record ctx =
  deadline :: "Time option"
  cancelled :: bool

text \<open>
  The result of a call that may wait for ever: \<open>Returns r\<close> with the error \<open>r\<close> (nil is
  \<open>None\<close>), or \<open>Blocks\<close> when the call never returns.
\<close>

datatype outcome = Returns "error option" | Blocks

text \<open>
  A \<^verbatim>\<open>net.Conn\<close>. The prober calls each of its methods at most once, so a connection
  is described by what each call does: the error of \<^verbatim>\<open>SetDeadline\<close>, the pairs
  \<open>(n, err)\<close> of \<^verbatim>\<open>Write\<close> and \<^verbatim>\<open>Read\<close> (the byte count and the error), the error
  of \<^verbatim>\<open>Close\<close>. A \<^verbatim>\<open>Write\<close> or \<^verbatim>\<open>Read\<close> may also never return (a peer that stays
  silent while no deadline is set): that is \<open>None\<close>. The byte count is whatever the
  connection reports; an implementation of the interface may report no error together
  with a count of zero. The calls made on the connection are recorded, in order, as a
  list of \<open>conn_call\<close>.
\<close>

record conn =
  setDeadlineRes :: "error option"
  writeRes :: "(int \<times> error option) option"
  readRes :: "(int \<times> error option) option"
  closeRes :: "error option"

datatype conn_call = SetDeadline Time | Write string | Read nat | Close

text \<open>The \<^verbatim>\<open>dialer\<close> interface: \<^verbatim>\<open>DialContext(ctx, network, address)\<close>.\<close>

type_synonym dialer = "ctx \<Rightarrow> string \<Rightarrow> string \<Rightarrow> error + conn"

definition invalidHTTPRequestLine :: string where
  "invalidHTTPRequestLine = ''INVALID'' @ [CHR 0x0A, CHR 0x0A]"

text \<open>
  Lines 43 to 54 of \<^verbatim>\<open>waitUntilAvailable\<close>: write the invalid request line, then read
  into a buffer of one byte. \<open>tr\<close> is the list of calls made on the connection so far.
  The byte counts returned by \<^verbatim>\<open>Write\<close> and \<^verbatim>\<open>Read\<close> are discarded, as in the source.
  A call that never returns leaves the prober waiting in it.
\<close>

definition sendProbe :: "conn \<Rightarrow> conn_call list \<Rightarrow> outcome \<times> conn_call list" where
  "sendProbe c tr =
     (case writeRes c of
        None \<Rightarrow> (Blocks, tr @ [Write invalidHTTPRequestLine])
      | Some (n, werr) \<Rightarrow>
          (case werr of
             Some err \<Rightarrow>
               (Returns (wrapNetErr (Some err) ''failed to write request to server'' []),
                tr @ [Write invalidHTTPRequestLine])
           | None \<Rightarrow>
               (case readRes c of
                  None \<Rightarrow> (Blocks, tr @ [Write invalidHTTPRequestLine, Read 1])
                | Some (m, rerr) \<Rightarrow>
                    (case rerr of
                       Some err \<Rightarrow>
                         (Returns (wrapNetErr (Some err) ''failed to read response from server'' []),
                          tr @ [Write invalidHTTPRequestLine, Read 1])
                     | None \<Rightarrow> (Returns None, tr @ [Write invalidHTTPRequestLine, Read 1])))))"

text \<open>
  \<^verbatim>\<open>waitUntilAvailable(ctx, d, addr)\<close>: the outcome (\<open>Returns None\<close> is success) and the
  calls made on the dialled connection (empty when the dial failed). The deferred
  \<^verbatim>\<open>conn.Close()\<close> runs when the function returns, on every path after the dial; it
  does not run while the function waits in a call that never returns.
\<close>

definition waitUntilAvailable :: "ctx \<Rightarrow> dialer \<Rightarrow> string \<Rightarrow> outcome \<times> conn_call list" where
  "waitUntilAvailable c d addr =
     (case d c ''tcp'' addr of
        Inl err \<Rightarrow>
          (Returns (wrapNetErr (Some err) ''failed to dial to %q'' [ArgString addr]), [])
      | Inr cn \<Rightarrow>
          (let (res, tr) =
             (case deadline c of
                Some dl \<Rightarrow>
                  (case setDeadlineRes cn of
                     Some err \<Rightarrow>
                       (Returns (Some (Errorf ''failed to set connection deadline to %v: %v''
                                         [ArgTime dl, ArgError err])),
                        [SetDeadline dl])
                   | None \<Rightarrow> sendProbe cn [SetDeadline dl])
              | None \<Rightarrow> sendProbe cn [])
           in (case res of
                 Blocks \<Rightarrow> (Blocks, tr)
               | Returns r \<Rightarrow> (Returns r, tr @ [Close]))))"

section \<open>Listeners and the keep-alive wrapper\<close>

text \<open>
  A \<^verbatim>\<open>*net.TCPConn\<close> as far as the wrapper touches it: whether keep-alive is on, the
  keep-alive period (a \<^verbatim>\<open>time.Duration\<close>, in nanoseconds), and what the two setters of
  the standard library do on it. \<^verbatim>\<open>SetKeepAlive\<close> and \<^verbatim>\<open>SetKeepAlivePeriod\<close> return an
  error when the socket option cannot be set: \<open>setKeepAliveRes\<close> is that error for the
  first (the flag is then left as it was), \<open>setKeepAlivePeriodRes\<close> is, for the second,
  the error together with the period the socket is left with.
\<close>

record tcpConn =
  keepAlive :: bool
  keepAlivePeriod :: int
  setKeepAliveRes :: "error option"
  setKeepAlivePeriodRes :: "(error \<times> int) option"

definition SetKeepAlive :: "bool \<Rightarrow> tcpConn \<Rightarrow> error option \<times> tcpConn" where
  "SetKeepAlive b tc =
     (case setKeepAliveRes tc of
        None \<Rightarrow> (None, tc\<lparr>keepAlive := b\<rparr>)
      | Some err \<Rightarrow> (Some err, tc))"

definition SetKeepAlivePeriod :: "int \<Rightarrow> tcpConn \<Rightarrow> error option \<times> tcpConn" where
  "SetKeepAlivePeriod d tc =
     (case setKeepAlivePeriodRes tc of
        None \<Rightarrow> (None, tc\<lparr>keepAlivePeriod := d\<rparr>)
      | Some (err, left) \<Rightarrow> (Some err, tc\<lparr>keepAlivePeriod := left\<rparr>))"

definition Minute :: int where
  "Minute = 60 * 1000000000"

text \<open>
  A \<^verbatim>\<open>net.Listener\<close>: a \<^verbatim>\<open>*net.TCPListener\<close>, a listener of any other type (with the
  address it is bound to), or a \<^verbatim>\<open>tcpKeepAliveListener\<close> wrapping a TCP listener.
\<close>

record tcpListener =
  tcpAddr :: string

datatype listener =
    TCPListener tcpListener
  | OtherListener string
  | tcpKeepAliveListener tcpListener

text \<open>\<^verbatim>\<open>ln.Addr().String()\<close>; the wrapper embeds the TCP listener and inherits its \<^verbatim>\<open>Addr\<close>.\<close>

fun lnAddr :: "listener \<Rightarrow> string" where
  "lnAddr (TCPListener l) = tcpAddr l"
| "lnAddr (OtherListener a) = a"
| "lnAddr (tcpKeepAliveListener l) = tcpAddr l"

text \<open>
  \<^verbatim>\<open>tcpKeepAliveListener.Accept\<close>. The argument is what \<^verbatim>\<open>ln.AcceptTCP()\<close> returns at
  this call. Both setters are called on the accepted connection and the errors they
  return are discarded.
\<close>

fun Accept :: "error + tcpConn \<Rightarrow> error + tcpConn" where
  "Accept (Inl err) = Inl err"
| "Accept (Inr tc) =
     (let (err1, tc1) = SetKeepAlive True tc;
          (err2, tc2) = SetKeepAlivePeriod (3 * Minute) tc1
      in Inr tc2)"

text \<open>
  The operating system's network, as the functions of the standard library the handle
  reaches: \<^verbatim>\<open>net.Listen\<close> and the \<^verbatim>\<open>DialContext\<close> of a \<^verbatim>\<open>net.Dialer\<close>. Each call of
  \<open>Start\<close> is given the network's behaviour at that call.
\<close>

record os =
  netListen :: "string \<Rightarrow> string \<Rightarrow> error + listener"
  netDial :: dialer

definition DefaultListenFunc :: "os \<Rightarrow> string \<Rightarrow> string \<Rightarrow> error + listener" where
  "DefaultListenFunc e network address =
     (case netListen e network address of
        Inl err \<Rightarrow> Inl err
      | Inr l \<Rightarrow>
          (case l of
             TCPListener tcp \<Rightarrow> Inr (tcpKeepAliveListener tcp)
           | _ \<Rightarrow> Inr l))"

definition newDialer :: "os \<Rightarrow> dialer" where
  "newDialer e = netDial e"

section \<open>The serve task and its completion channel\<close>

text \<open>
  \<^verbatim>\<open>Start\<close> makes a channel of capacity one and launches a goroutine that calls
  \<^verbatim>\<open>h.srv.Serve(ln)\<close>, sends the returned error on the channel and closes it. A \<open>task\<close>
  is that goroutine together with its channel:
  \<^item> \<open>pc\<close> is where the goroutine stands: inside \<^verbatim>\<open>Serve\<close>, about to send the error
    \<^verbatim>\<open>Serve\<close> returned, about to close the channel, or finished;
  \<^item> \<open>buf\<close> is the channel's buffer, \<open>closed\<close> whether the channel is closed;
  \<^item> \<open>sent\<close> is every value ever sent on the channel, in order (a history, not read by
    the program).
\<close>

datatype pc = Serving | Sending error | Closing | Exited

record task =
  pc :: pc
  serving :: listener
  buf :: "error list"
  closed :: bool
  sent :: "error list"

definition spawnServe :: "listener \<Rightarrow> task" where
  "spawnServe l = \<lparr>pc = Serving, serving = l, buf = [], closed = False, sent = []\<rparr>"

text \<open>
  One step of the goroutine. \<open>r\<close> is what \<^verbatim>\<open>Serve\<close> returns (\<open>None\<close>: it has not
  returned). The result \<open>None\<close> means the goroutine cannot move: it is still inside
  \<^verbatim>\<open>Serve\<close>, it is blocked on a full buffer, or it has finished.
\<close>

definition taskStep :: "error option \<Rightarrow> task \<Rightarrow> task option" where
  "taskStep r t =
     (case pc t of
        Serving \<Rightarrow> (case r of None \<Rightarrow> None | Some err \<Rightarrow> Some (t\<lparr>pc := Sending err\<rparr>))
      | Sending err \<Rightarrow>
          (if length (buf t) < 1
           then Some (t\<lparr>pc := Closing, buf := buf t @ [err], sent := sent t @ [err]\<rparr>)
           else None)
      | Closing \<Rightarrow> Some (t\<lparr>pc := Exited, closed := True\<rparr>)
      | Exited \<Rightarrow> None)"

text \<open>At most \<open>n\<close> steps of the goroutine.\<close>

fun taskRun :: "nat \<Rightarrow> error option \<Rightarrow> task \<Rightarrow> task" where
  "taskRun 0 r t = t"
| "taskRun (Suc n) r t = (case taskStep r t of None \<Rightarrow> t | Some t' \<Rightarrow> taskRun n r t')"

text \<open>
  A receive that does not block (the \<^verbatim>\<open>select\<close> with a \<^verbatim>\<open>default\<close> of \<^verbatim>\<open>Start\<close>): a
  buffered value is taken; a closed and empty channel yields the zero value, a nil
  error; otherwise nothing is available.
\<close>

definition tryRecv :: "task \<Rightarrow> (error option \<times> task) option" where
  "tryRecv t =
     (case buf t of
        v # vs \<Rightarrow> Some (Some v, t\<lparr>buf := vs\<rparr>)
      | [] \<Rightarrow> if closed t then Some (None, t) else None)"

fun pcRank :: "pc \<Rightarrow> nat" where
  "pcRank Serving = 3"
| "pcRank (Sending err) = 2"
| "pcRank Closing = 1"
| "pcRank Exited = 0"

text \<open>
  A blocking receive (\<^verbatim>\<open><-h.errCh\<close> in \<^verbatim>\<open>Shutdown\<close>): while nothing is available the
  receiver waits and the goroutine runs. \<open>None\<close> means the receive never completes:
  nothing is available and the goroutine cannot move.
\<close>

function chanRecv :: "error option \<Rightarrow> task \<Rightarrow> (error option \<times> task) option" where
  "chanRecv r t =
     (case tryRecv t of
        Some x \<Rightarrow> Some x
      | None \<Rightarrow> (case taskStep r t of None \<Rightarrow> None | Some t' \<Rightarrow> chanRecv r t'))"
  by pat_completeness auto
termination
  by (relation "measure (\<lambda>(r, t). pcRank (pc t))")
     (auto simp: taskStep_def split: pc.splits option.splits if_splits)

declare chanRecv.simps [simp del]

section \<open>The lifecycle handle\<close>

text \<open>
  The \<^verbatim>\<open>Handle\<close> struct. \<open>srvAddr\<close> is \<^verbatim>\<open>h.srv.Addr\<close>; \<open>errCh\<close> refers to a channel by
  its index in the world's list of tasks (\<open>None\<close> is the nil channel). The two factories
  take the network's behaviour at the call.
\<close>

record handle =
  srvAddr :: string
  ln :: "listener option"
  errCh :: "nat option"
  listenFunc :: "os \<Rightarrow> string \<Rightarrow> string \<Rightarrow> error + listener"
  newDialerFunc :: "os \<Rightarrow> dialer"

text \<open>The two options of the package: \<^verbatim>\<open>ListenFunc(f)\<close> and \<^verbatim>\<open>newDialerFunc(f)\<close>.\<close>

datatype handleOption =
    ListenFunc "os \<Rightarrow> string \<Rightarrow> string \<Rightarrow> error + listener"
  | DialerFunc "os \<Rightarrow> dialer"

fun applyOption :: "handleOption \<Rightarrow> handle \<Rightarrow> handle" where
  "applyOption (ListenFunc f) h = h\<lparr>listenFunc := f\<rparr>"
| "applyOption (DialerFunc f) h = h\<lparr>newDialerFunc := f\<rparr>"

definition NewHandle :: "string \<Rightarrow> handleOption list \<Rightarrow> handle" where
  "NewHandle addr opts =
     fold applyOption opts
       \<lparr>srvAddr = addr, ln = None, errCh = None,
        listenFunc = DefaultListenFunc, newDialerFunc = newDialer\<rparr>"

definition Addr :: "handle \<Rightarrow> string option" where
  "Addr h = (case ln h of None \<Rightarrow> None | Some l \<Rightarrow> Some (lnAddr l))"

text \<open>
  The world outside the handle: the tasks launched so far (a channel is the index of
  its task) and the listeners \<^verbatim>\<open>Start\<close> has closed, in order.
\<close>

record world =
  tasks :: "task list"
  closedLns :: "listener list"

text \<open>
  What the surroundings do during one call of \<^verbatim>\<open>Start\<close>: the network, and how far the
  serve goroutine has come when \<^verbatim>\<open>Start\<close> reaches its \<^verbatim>\<open>select\<close>: \<open>serveRes\<close> is what
  \<^verbatim>\<open>Serve\<close> has returned by then (\<open>None\<close>: it is still serving), \<open>progress\<close> the number
  of steps the goroutine has been scheduled for.
\<close>

record startEnv =
  osState :: os
  serveRes :: "error option"
  progress :: nat

text \<open>A received value as an argument of \<^verbatim>\<open>fmt.Errorf\<close>.\<close>

definition argOfError :: "error option \<Rightarrow> fmt_arg" where
  "argOfError v = (case v of None \<Rightarrow> ArgNil | Some err \<Rightarrow> ArgError err)"

text \<open>
  \<^verbatim>\<open>Handle.Start(ctx)\<close>: the outcome, the handle and the world after the call. When
  the prober never returns, neither does \<^verbatim>\<open>Start\<close>: the task is launched and nothing is
  recorded on the handle.
  The new channel is the index \<open>ch\<close> of the task launched for it. When the prober
  fails, the goroutine has taken \<open>progress env\<close> steps by the time of the \<^verbatim>\<open>select\<close>
  (one: \<^verbatim>\<open>Serve\<close> has returned; two: the error is sent; three: the channel is closed),
  and the \<^verbatim>\<open>select\<close> receives if it can and takes its \<^verbatim>\<open>default\<close> otherwise. When the
  prober succeeds nothing looks at the channel: the task is recorded as launched, and
  how far it has come is settled when \<^verbatim>\<open>Shutdown\<close> receives from it.
\<close>

definition Start :: "handle \<Rightarrow> ctx \<Rightarrow> startEnv \<Rightarrow> world \<Rightarrow> outcome \<times> handle \<times> world" where
  "Start h c env w =
     (if ln h \<noteq> None then (Returns (Some (ErrorString ''server is already running'')), h, w)
      else
        (let addr = (if srvAddr h = [] then '':0'' else srvAddr h) in
         (case listenFunc h (osState env) ''tcp'' addr of
            Inl err \<Rightarrow>
              (Returns (Some (Errorf ''error starting HTTP server on %q: %v''
                                [ArgString addr, ArgError err])),
               h, w)
          | Inr l \<Rightarrow>
              (let ch = length (tasks w);
                   w1 = w\<lparr>tasks := tasks w @ [spawnServe l]\<rparr>;
                   d = newDialerFunc h (osState env)
               in (case fst (waitUntilAvailable c d (lnAddr l)) of
                     Blocks \<Rightarrow> (Blocks, h, w1)
                   | Returns perr \<Rightarrow>
                       (case perr of
                          Some err \<Rightarrow>
                            (let t = taskRun (progress env) (serveRes env) (spawnServe l) in
                             (case tryRecv t of
                                Some (v, t') \<Rightarrow>
                                  (Returns (Some (Errorf ''error starting HTTP server: %v''
                                                    [argOfError v])),
                                   h, w1\<lparr>tasks := list_update (tasks w1) ch t'\<rparr>)
                              | None \<Rightarrow>
                                  (Returns (wrapNetErr (Some err)
                                              ''error waiting for server to start up'' []),
                                   h, w1\<lparr>tasks := list_update (tasks w1) ch t,
                                         closedLns := closedLns w1 @ [l]\<rparr>)))
                        | None \<Rightarrow> (Returns None, h\<lparr>errCh := Some ch, ln := Some l\<rparr>, w1)))))))"

text \<open>
  What the surroundings do during one call of \<^verbatim>\<open>Shutdown\<close>: what
  \<^verbatim>\<open>h.srv.Shutdown(ctx)\<close> returns, and what \<^verbatim>\<open>Serve\<close> returns to the goroutine if it is
  still serving when \<^verbatim>\<open>Shutdown\<close> waits for it (\<open>None\<close>: \<^verbatim>\<open>Serve\<close> never returns).
\<close>

record shutdownEnv =
  srvShutdown :: "ctx \<Rightarrow> error option"
  serveReturns :: "error option"

text \<open>
  The receive \<^verbatim>\<open><-h.errCh\<close>: the value received and the world after it, or \<open>None\<close>
  when the receive never completes. A receive from a nil channel never completes. (A
  reference to a channel that is not in the world does not arise, \<^verbatim>\<open>Start\<close> records the
  channel it has just made; the definition gives \<open>None\<close> for it.)
\<close>

definition awaitServe :: "handle \<Rightarrow> shutdownEnv \<Rightarrow> world \<Rightarrow> (error option \<times> world) option" where
  "awaitServe h env w =
     (case errCh h of
        None \<Rightarrow> None
      | Some ch \<Rightarrow>
          if ch < length (tasks w)
          then (case chanRecv (serveReturns env) (tasks w ! ch) of
                  None \<Rightarrow> None
                | Some (v, t') \<Rightarrow> Some (v, w\<lparr>tasks := list_update (tasks w) ch t'\<rparr>))
          else None)"

text \<open>
  \<^verbatim>\<open>Handle.Shutdown(ctx)\<close>: an error of the graceful shutdown is returned at once;
  otherwise the value received from the channel is returned as it is unless it is
  \<^verbatim>\<open>http.ErrServerClosed\<close>, for which the listener is cleared and nil returned.
\<close>

definition Shutdown :: "handle \<Rightarrow> ctx \<Rightarrow> shutdownEnv \<Rightarrow> world \<Rightarrow> outcome \<times> handle \<times> world" where
  "Shutdown h c env w =
     (case srvShutdown env c of
        Some err \<Rightarrow> (Returns (Some err), h, w)
      | None \<Rightarrow>
          (case awaitServe h env w of
             None \<Rightarrow> (Blocks, h, w)
           | Some (v, w') \<Rightarrow>
               if v \<noteq> Some ErrServerClosed then (Returns v, h, w')
               else (Returns None, h\<lparr>ln := None\<rparr>, w')))"

section \<open>Sequences of lifecycle calls\<close>

text \<open>
  The caller is sequential: it makes one call of \<^verbatim>\<open>Start\<close> or \<^verbatim>\<open>Shutdown\<close> after the
  other, each under its own context and surroundings, and makes no further call once a
  call blocks for ever.
\<close>

datatype call = CallStart ctx startEnv | CallShutdown ctx shutdownEnv

fun exec :: "call \<Rightarrow> handle \<times> world \<Rightarrow> outcome \<times> handle \<times> world" where
  "exec (CallStart c env) (h, w) = Start h c env w"
| "exec (CallShutdown c env) (h, w) = Shutdown h c env w"

fun run :: "call list \<Rightarrow> handle \<times> world \<Rightarrow> outcome list \<times> handle \<times> world" where
  "run [] st = ([], st)"
| "run (x # xs) st =
     (case exec x st of
        (Blocks, st') \<Rightarrow> ([Blocks], st')
      | (Returns r, st') \<Rightarrow> (case run xs st' of (outs, st'') \<Rightarrow> (Returns r # outs, st'')))"

text \<open>
  The state machine in the words of the specification, \<open>Idle \<rightarrow> Running \<rightarrow> Idle\<close>, driven
  by what the caller observes: a \<^verbatim>\<open>Start\<close> that returns success makes the handle
  running, a \<^verbatim>\<open>Shutdown\<close> that returns success makes it idle, every other call leaves
  the state as it is.
\<close>

datatype lifecycle = Idle | Running

fun specStep :: "lifecycle \<Rightarrow> call \<Rightarrow> outcome \<Rightarrow> lifecycle" where
  "specStep s (CallStart c env) (Returns None) = Running"
| "specStep s (CallShutdown c env) (Returns None) = Idle"
| "specStep s x out = s"

fun specState :: "lifecycle \<Rightarrow> call list \<Rightarrow> outcome list \<Rightarrow> lifecycle" where
  "specState s (x # xs) (out # outs) = specState (specStep s x out) xs outs"
| "specState s xs outs = s"

text \<open>
  The same machine driven by what \<^verbatim>\<open>Shutdown\<close> receives: the handle becomes idle when
  the graceful shutdown returned no error and the value received from the completion
  channel is \<^verbatim>\<open>http.ErrServerClosed\<close>.
\<close>

definition gotSentinel :: "handle \<Rightarrow> ctx \<Rightarrow> shutdownEnv \<Rightarrow> world \<Rightarrow> bool" where
  "gotSentinel h c env w =
     (srvShutdown env c = None \<and>
      (case awaitServe h env w of
         None \<Rightarrow> False
       | Some (v, w') \<Rightarrow> v = Some ErrServerClosed))"

fun track :: "lifecycle \<Rightarrow> call \<Rightarrow> handle \<times> world \<Rightarrow> lifecycle" where
  "track s (CallStart c env) (h, w) = (if fst (Start h c env w) = Returns None then Running else s)"
| "track s (CallShutdown c env) (h, w) = (if gotSentinel h c env w then Idle else s)"

fun lifecycleAfter :: "lifecycle \<Rightarrow> call list \<Rightarrow> handle \<times> world \<Rightarrow> lifecycle" where
  "lifecycleAfter s [] st = s"
| "lifecycleAfter s (x # xs) st =
     (case exec x st of
        (Blocks, st') \<Rightarrow> s
      | (Returns r, st') \<Rightarrow> lifecycleAfter (track s x st) xs st')"

section \<open>Concrete surroundings\<close>

text \<open>
  A network on which \<^verbatim>\<open>net.Listen\<close> binds a TCP listener and the dialled connection
  answers the probe; a context with a deadline and one without; a server that shuts
  down gracefully, and an empty world.
\<close>

definition exConn :: conn where
  "exConn =
     \<lparr>setDeadlineRes = None, writeRes = Some (9, None), readRes = Some (1, None),
      closeRes = None\<rparr>"

definition exListener :: tcpListener where
  "exListener = \<lparr>tcpAddr = ''127.0.0.1:8080''\<rparr>"

definition exOS :: os where
  "exOS = \<lparr>netListen = (\<lambda>network address. Inr (TCPListener exListener)),
           netDial = (\<lambda>c network address. Inr exConn)\<rparr>"

definition exCtx :: ctx where
  "exCtx = \<lparr>deadline = Some 10, cancelled = False\<rparr>"

definition exCtxNoDeadline :: ctx where
  "exCtxNoDeadline = \<lparr>deadline = None, cancelled = True\<rparr>"

definition exStartEnv :: startEnv where
  "exStartEnv = \<lparr>osState = exOS, serveRes = None, progress = 0\<rparr>"

definition exShutdownEnv :: shutdownEnv where
  "exShutdownEnv = \<lparr>srvShutdown = (\<lambda>c. None), serveReturns = Some ErrServerClosed\<rparr>"

definition exWorld :: world where
  "exWorld = \<lparr>tasks = [], closedLns = []\<rparr>"

text \<open>
  The same network with a dialer that is refused, and with a dialer that times out; the
  handle and world after a first successful \<^verbatim>\<open>Start\<close>.
\<close>

definition exOSRefused :: os where
  "exOSRefused = exOS\<lparr>netDial := (\<lambda>c network address. Inl (NetError False ''connection refused''))\<rparr>"

definition exOSTimeout :: os where
  "exOSTimeout = exOS\<lparr>netDial := (\<lambda>c network address. Inl (NetError True ''i/o timeout''))\<rparr>"

definition exStarted :: "handle \<times> world" where
  "exStarted = snd (Start (NewHandle [] []) exCtx exStartEnv exWorld)"

text \<open>
  A server whose \<^verbatim>\<open>Serve\<close> has failed on its own while its graceful shutdown returns
  no error; one start and shutdown cycle, and the handle and world after it; and a start
  followed by two shutdowns, the serve task having failed on its own.
\<close>

definition exServeFailed :: shutdownEnv where
  "exServeFailed =
     \<lparr>srvShutdown = (\<lambda>c. None), serveReturns = Some (ErrorString ''accept failed'')\<rparr>"

definition exCycle :: "call list" where
  "exCycle = [CallStart exCtx exStartEnv, CallShutdown exCtx exShutdownEnv]"

definition exAfterCycle :: "handle \<times> world" where
  "exAfterCycle = snd (run exCycle (NewHandle [] [], exWorld))"

definition exCallsFailed :: "call list" where
  "exCallsFailed =
     [CallStart exCtx exStartEnv, CallShutdown exCtx exServeFailed,
      CallShutdown exCtx exShutdownEnv]"

text \<open>
  Connections that misbehave: one whose read reports no error and no byte, one whose
  peer stays silent so that the read never returns, one on which no deadline can be
  set; and a network whose dialer hands out the last one.
\<close>

definition exConnZeroRead :: conn where
  "exConnZeroRead = exConn\<lparr>readRes := Some (0, None)\<rparr>"

definition exConnSilent :: conn where
  "exConnSilent = exConn\<lparr>readRes := None\<rparr>"

definition exConnNoDeadline :: conn where
  "exConnNoDeadline = exConn\<lparr>setDeadlineRes := Some (ErrorString ''use of closed file'')\<rparr>"

definition exOSNoDeadline :: os where
  "exOSNoDeadline = exOS\<lparr>netDial := (\<lambda>c network address. Inr exConnNoDeadline)\<rparr>"

text \<open>
  An accepted TCP connection on which both socket options can be set, and one on which
  keep-alive cannot be switched on.
\<close>

definition exTcpConn :: tcpConn where
  "exTcpConn =
     \<lparr>keepAlive = False, keepAlivePeriod = 0, setKeepAliveRes = None,
      setKeepAlivePeriodRes = None\<rparr>"

definition exTcpConnRefusing :: tcpConn where
  "exTcpConnRefusing =
     exTcpConn\<lparr>setKeepAliveRes := Some (ErrorString ''setsockopt: invalid argument'')\<rparr>"

section \<open>Properties of the prober\<close>

lemma wua_dial_failed:
  "d c ''tcp'' addr = Inl err \<Longrightarrow>
     waitUntilAvailable c d addr =
       (Returns (wrapNetErr (Some err) ''failed to dial to %q'' [ArgString addr]), [])"
  by (simp add: waitUntilAvailable_def)

lemma sendProbe_cases:
  "sendProbe cn tr =
     (case writeRes cn of
        None \<Rightarrow> (Blocks, tr @ [Write invalidHTTPRequestLine])
      | Some (n, None) \<Rightarrow>
          (case readRes cn of
             None \<Rightarrow> (Blocks, tr @ [Write invalidHTTPRequestLine, Read 1])
           | Some (m, None) \<Rightarrow> (Returns None, tr @ [Write invalidHTTPRequestLine, Read 1])
           | Some (m, Some err) \<Rightarrow>
               (Returns (Some (if isTimeout err then DeadlineExceeded
                               else Errorf ''%s: %v''
                                      [ArgString ''failed to read response from server'',
                                       ArgError err])),
                tr @ [Write invalidHTTPRequestLine, Read 1]))
      | Some (n, Some err) \<Rightarrow>
          (Returns (Some (if isTimeout err then DeadlineExceeded
                          else Errorf ''%s: %v''
                                 [ArgString ''failed to write request to server'',
                                  ArgError err])),
           tr @ [Write invalidHTTPRequestLine]))"
  by (simp add: sendProbe_def isTimeout_def split: option.splits prod.splits)

lemma wua_dialled:
  "d c ''tcp'' addr = Inr cn \<Longrightarrow>
     waitUntilAvailable c d addr =
       (case deadline c of
          Some dl \<Rightarrow>
            (case setDeadlineRes cn of
               Some err \<Rightarrow>
                 (Returns (Some (Errorf ''failed to set connection deadline to %v: %v''
                                   [ArgTime dl, ArgError err])),
                  [SetDeadline dl, Close])
             | None \<Rightarrow>
                 (fst (sendProbe cn [SetDeadline dl]),
                  snd (sendProbe cn [SetDeadline dl]) @
                    (if fst (sendProbe cn [SetDeadline dl]) = Blocks then [] else [Close])))
        | None \<Rightarrow>
            (fst (sendProbe cn []),
             snd (sendProbe cn []) @ (if fst (sendProbe cn []) = Blocks then [] else [Close])))"
  by (simp add: waitUntilAvailable_def split: option.splits prod.splits outcome.splits)

text \<open>
  Claim C4. Whichever of the three steps of the prober fails (the dial, the write of
  the request line, the read of the answer), the error \<open>err\<close> of that step is turned
  into the prober's result in the same way: when \<open>err\<close> is a \<^verbatim>\<open>net.Error\<close> whose
  \<^verbatim>\<open>Timeout()\<close> is true the prober returns \<^verbatim>\<open>context.DeadlineExceeded\<close>, and otherwise it
  returns \<open>err\<close> wrapped by \<^verbatim>\<open>fmt.Errorf("%s: %v", msg, err)\<close> with the message of the
  step. The write is reached when the dial succeeded and the deadline, if the context
  has one, was set without error; the read is reached when moreover the write returned
  no error.
\<close>

theorem prober_timeout_is_deadline_exceeded:
  "(d c ''tcp'' addr = Inl err \<longrightarrow>
      fst (waitUntilAvailable c d addr) =
        Returns (Some (if isTimeout err then DeadlineExceeded
              else Errorf ''%s: %v''
                     [ArgSprintf ''failed to dial to %q'' [ArgString addr], ArgError err])))
   \<and> (d c ''tcp'' addr = Inr cn \<and> (deadline c = None \<or> setDeadlineRes cn = None) \<and>
        writeRes cn = Some (n, Some err) \<longrightarrow>
      fst (waitUntilAvailable c d addr) =
        Returns (Some (if isTimeout err then DeadlineExceeded
              else Errorf ''%s: %v''
                     [ArgString ''failed to write request to server'', ArgError err])))
   \<and> (d c ''tcp'' addr = Inr cn \<and> (deadline c = None \<or> setDeadlineRes cn = None) \<and>
        writeRes cn = Some (n, None) \<and> readRes cn = Some (m, Some err) \<longrightarrow>
      fst (waitUntilAvailable c d addr) =
        Returns (Some (if isTimeout err then DeadlineExceeded
              else Errorf ''%s: %v''
                     [ArgString ''failed to read response from server'', ArgError err])))"
  by (auto simp: wua_dial_failed wua_dialled sendProbe_cases isTimeout_def split: option.splits)

text \<open>
  The theorem at a dial that times out, a write that times out, a read that times out,
  and a read that fails with an error that is no timeout.
\<close>

theorem prober_timeout_is_deadline_exceeded_witness:
  "fst (waitUntilAvailable exCtx (\<lambda>c network address. Inl (NetError True ''i/o timeout''))
          ''127.0.0.1:8080'') = Returns (Some DeadlineExceeded)
   \<and> fst (waitUntilAvailable exCtx
          (\<lambda>c network address. Inr (exConn\<lparr>writeRes := Some (0, Some (NetError True ''i/o timeout''))\<rparr>))
          ''127.0.0.1:8080'') = Returns (Some DeadlineExceeded)
   \<and> fst (waitUntilAvailable exCtx
          (\<lambda>c network address. Inr (exConn\<lparr>readRes := Some (0, Some (NetError True ''i/o timeout''))\<rparr>))
          ''127.0.0.1:8080'') = Returns (Some DeadlineExceeded)
   \<and> fst (waitUntilAvailable exCtx
          (\<lambda>c network address. Inr (exConn\<lparr>readRes := Some (0, Some (ErrorString ''EOF''))\<rparr>))
          ''127.0.0.1:8080'') =
       Returns (Some (Errorf ''%s: %v''
               [ArgString ''failed to read response from server'', ArgError (ErrorString ''EOF'')]))"
  using prober_timeout_is_deadline_exceeded
          [of "\<lambda>c network address. Inl (NetError True ''i/o timeout'')" exCtx
              "''127.0.0.1:8080''" "NetError True ''i/o timeout''" exConn 0 0]
        prober_timeout_is_deadline_exceeded
          [of "\<lambda>c network address. Inr (exConn\<lparr>writeRes := Some (0, Some (NetError True ''i/o timeout''))\<rparr>)"
              exCtx "''127.0.0.1:8080''" "NetError True ''i/o timeout''"
              "exConn\<lparr>writeRes := Some (0, Some (NetError True ''i/o timeout''))\<rparr>" 0 0]
        prober_timeout_is_deadline_exceeded
          [of "\<lambda>c network address. Inr (exConn\<lparr>readRes := Some (0, Some (NetError True ''i/o timeout''))\<rparr>)"
              exCtx "''127.0.0.1:8080''" "NetError True ''i/o timeout''"
              "exConn\<lparr>readRes := Some (0, Some (NetError True ''i/o timeout''))\<rparr>" 9 0]
        prober_timeout_is_deadline_exceeded
          [of "\<lambda>c network address. Inr (exConn\<lparr>readRes := Some (0, Some (ErrorString ''EOF''))\<rparr>)"
              exCtx "''127.0.0.1:8080''" "ErrorString ''EOF''"
              "exConn\<lparr>readRes := Some (0, Some (ErrorString ''EOF''))\<rparr>" 9 0]
  by (simp add: exConn_def exCtx_def isTimeout_def)

text \<open>
  Claim C5, as the code has it. The prober returns success (a nil error) exactly when
  the dial returned a connection, the call \<^verbatim>\<open>Write(_invalidHTTPRequestLine)\<close> was made on
  it and returned no error, and the call \<^verbatim>\<open>Read\<close> on a buffer of one byte was made and
  returned no error, whatever byte counts the two calls report. It never returns exactly
  when the connection was dialled, no deadline failed to be set, and the write, or the
  read after a write without error, never returns. In every other case it returns an
  error. Whenever the dial returned a connection and the prober returns, the last call
  made on the connection is \<^verbatim>\<open>Close\<close>, and it is made once.
\<close>

theorem prober_success_iff_answered:
  "((fst (waitUntilAvailable c d addr) = Returns None) =
      (\<exists>cn n m. d c ''tcp'' addr = Inr cn \<and>
         Write invalidHTTPRequestLine \<in> set (snd (waitUntilAvailable c d addr)) \<and>
         writeRes cn = Some (n, None) \<and>
         Read 1 \<in> set (snd (waitUntilAvailable c d addr)) \<and>
         readRes cn = Some (m, None)))
   \<and> ((fst (waitUntilAvailable c d addr) = Blocks) =
      (\<exists>cn. d c ''tcp'' addr = Inr cn \<and>
         (deadline c = None \<or> setDeadlineRes cn = None) \<and>
         (writeRes cn = None \<or> (\<exists>n. writeRes cn = Some (n, None) \<and> readRes cn = None))))
   \<and> ((\<exists>err. fst (waitUntilAvailable c d addr) = Returns (Some err)) =
      (fst (waitUntilAvailable c d addr) \<noteq> Returns None \<and>
       fst (waitUntilAvailable c d addr) \<noteq> Blocks))
   \<and> (\<forall>cn. d c ''tcp'' addr = Inr cn \<and> fst (waitUntilAvailable c d addr) \<noteq> Blocks \<longrightarrow>
         (\<exists>tr. snd (waitUntilAvailable c d addr) = tr @ [Close] \<and> Close \<notin> set tr))"
proof -
  have success: "(fst (waitUntilAvailable c d addr) = Returns None) =
      (\<exists>cn n m. d c ''tcp'' addr = Inr cn \<and>
         Write invalidHTTPRequestLine \<in> set (snd (waitUntilAvailable c d addr)) \<and>
         writeRes cn = Some (n, None) \<and>
         Read 1 \<in> set (snd (waitUntilAvailable c d addr)) \<and>
         readRes cn = Some (m, None))"
  proof (cases "d c ''tcp'' addr")
    case (Inl err)
    then show ?thesis by (simp add: wua_dial_failed)
  next
    case (Inr cn)
    then show ?thesis
      by (auto simp: wua_dialled sendProbe_cases split: option.splits)
  qed
  have blocks: "(fst (waitUntilAvailable c d addr) = Blocks) =
      (\<exists>cn. d c ''tcp'' addr = Inr cn \<and>
         (deadline c = None \<or> setDeadlineRes cn = None) \<and>
         (writeRes cn = None \<or> (\<exists>n. writeRes cn = Some (n, None) \<and> readRes cn = None)))"
  proof (cases "d c ''tcp'' addr")
    case (Inl err)
    then show ?thesis by (simp add: wua_dial_failed)
  next
    case (Inr cn)
    then show ?thesis
      by (auto simp: wua_dialled sendProbe_cases split: option.splits)
  qed
  have failure: "(\<exists>err. fst (waitUntilAvailable c d addr) = Returns (Some err)) =
      (fst (waitUntilAvailable c d addr) \<noteq> Returns None \<and>
       fst (waitUntilAvailable c d addr) \<noteq> Blocks)"
  proof (cases "fst (waitUntilAvailable c d addr)")
    case (Returns r)
    then show ?thesis by (cases r) simp_all
  next
    case Blocks
    then show ?thesis by simp
  qed
  have closes: "\<forall>cn. d c ''tcp'' addr = Inr cn \<and> fst (waitUntilAvailable c d addr) \<noteq> Blocks \<longrightarrow>
      (\<exists>tr. snd (waitUntilAvailable c d addr) = tr @ [Close] \<and> Close \<notin> set tr)"
    by (auto simp: wua_dialled sendProbe_cases split: option.splits)
  from success blocks failure closes show ?thesis by blast
qed

text \<open>
  The theorem on a connection that answers the probe (success, and the calls are the
  deadline, the write, the read and the close), on one whose read fails (an error, and
  the connection is closed all the same), and on one whose peer stays silent under a
  context without a deadline (the prober waits in the read, nothing is closed).
\<close>

theorem prober_success_iff_answered_witness:
  "waitUntilAvailable exCtx (netDial exOS) ''127.0.0.1:8080'' =
     (Returns None, [SetDeadline 10, Write invalidHTTPRequestLine, Read 1, Close])
   \<and> waitUntilAvailable exCtx
        (\<lambda>c network address. Inr (exConn\<lparr>readRes := Some (0, Some (ErrorString ''EOF''))\<rparr>))
        ''127.0.0.1:8080'' =
       (Returns (Some (Errorf ''%s: %v''
                [ArgString ''failed to read response from server'', ArgError (ErrorString ''EOF'')])),
        [SetDeadline 10, Write invalidHTTPRequestLine, Read 1, Close])
   \<and> waitUntilAvailable exCtxNoDeadline (\<lambda>c network address. Inr exConnSilent)
        ''127.0.0.1:8080'' =
       (Blocks, [Write invalidHTTPRequestLine, Read 1])"
  using prober_success_iff_answered [of exCtx "netDial exOS" "''127.0.0.1:8080''"]
        prober_success_iff_answered
          [of exCtx "\<lambda>c network address. Inr (exConn\<lparr>readRes := Some (0, Some (ErrorString ''EOF''))\<rparr>)"
              "''127.0.0.1:8080''"]
        prober_success_iff_answered
          [of exCtxNoDeadline "\<lambda>c network address. Inr exConnSilent" "''127.0.0.1:8080''"]
  by (simp add: waitUntilAvailable_def sendProbe_def exConn_def exConnSilent_def exCtx_def
        exCtxNoDeadline_def exOS_def)

text \<open>
  Claim C5 as the specification states it says that success means a single byte of the
  answer was read, and that the prober returns an error in every other case. Both fail.
  On a connection whose \<^verbatim>\<open>Read\<close> reports no error and a count of zero the prober
  returns success: the source discards the count. On a connection whose peer stays
  silent, under a context without a deadline, the prober returns neither success nor an
  error: it waits in the read for ever.
\<close>

theorem prober_success_without_byte_counterexample:
  "readRes exConnZeroRead = Some (0, None)
   \<and> fst (waitUntilAvailable exCtx (\<lambda>c network address. Inr exConnZeroRead) ''127.0.0.1:8080'') =
       Returns None
   \<and> fst (waitUntilAvailable exCtxNoDeadline (\<lambda>c network address. Inr exConnSilent)
          ''127.0.0.1:8080'') = Blocks
   \<and> fst (waitUntilAvailable exCtxNoDeadline (\<lambda>c network address. Inr exConnSilent)
          ''127.0.0.1:8080'') \<noteq> Returns None
   \<and> (\<forall>err. fst (waitUntilAvailable exCtxNoDeadline (\<lambda>c network address. Inr exConnSilent)
          ''127.0.0.1:8080'') \<noteq> Returns (Some err))"
  by (simp add: waitUntilAvailable_def sendProbe_def exConn_def exConnSilent_def
        exConnZeroRead_def exCtx_def exCtxNoDeadline_def)

text \<open>
  Claim C10. After a successful dial, the prober calls \<^verbatim>\<open>SetDeadline\<close> on the
  connection exactly when the context carries a deadline, and with that deadline. For a
  context without a deadline the prober does what the connection alone determines: the
  context is handed to the dial and read no more, so that two contexts without a
  deadline (cancelled or not) that dial the same connection give the same result, and
  no deadline is ever set for the write and the read. In particular, when the write or
  the read never returns, the prober never returns, cancelled context or not.
\<close>

theorem prober_deadline_from_context:
  "d c ''tcp'' addr = Inr cn \<Longrightarrow>
     (SetDeadline dl \<in> set (snd (waitUntilAvailable c d addr))) = (deadline c = Some dl)
     \<and> (deadline c = None \<longrightarrow>
          waitUntilAvailable c d addr =
            (fst (sendProbe cn []),
             snd (sendProbe cn []) @ (if fst (sendProbe cn []) = Blocks then [] else [Close])))
     \<and> (\<forall>c' d' addr'.
          deadline c = None \<and> deadline c' = None \<and> d' c' ''tcp'' addr' = Inr cn \<longrightarrow>
          waitUntilAvailable c' d' addr' = waitUntilAvailable c d addr)
     \<and> (deadline c = None \<and>
          (writeRes cn = None \<or> (\<exists>n. writeRes cn = Some (n, None) \<and> readRes cn = None)) \<longrightarrow>
          fst (waitUntilAvailable c d addr) = Blocks)"
  by (auto simp: wua_dialled sendProbe_cases split: option.splits)

text \<open>
  The theorem at a cancelled context without a deadline, at the same context not
  cancelled, at a context with the deadline 10, and at a silent peer under the cancelled
  context without a deadline.
\<close>

theorem prober_deadline_from_context_witness:
  "waitUntilAvailable exCtxNoDeadline (netDial exOS) ''127.0.0.1:8080'' =
     (Returns None, [Write invalidHTTPRequestLine, Read 1, Close])
   \<and> waitUntilAvailable (exCtxNoDeadline\<lparr>cancelled := False\<rparr>) (netDial exOS) ''127.0.0.1:8080'' =
       waitUntilAvailable exCtxNoDeadline (netDial exOS) ''127.0.0.1:8080''
   \<and> SetDeadline 10 \<in> set (snd (waitUntilAvailable exCtx (netDial exOS) ''127.0.0.1:8080''))
   \<and> fst (waitUntilAvailable exCtxNoDeadline (\<lambda>c network address. Inr exConnSilent)
          ''127.0.0.1:8080'') = Blocks"
proof -
  let ?a = "''127.0.0.1:8080''"
  let ?silent = "\<lambda>c network address. Inr exConnSilent"
  have d1: "netDial exOS exCtxNoDeadline ''tcp'' ?a = Inr exConn"
    by (simp add: exOS_def)
  have d2: "netDial exOS (exCtxNoDeadline\<lparr>cancelled := False\<rparr>) ''tcp'' ?a = Inr exConn"
    by (simp add: exOS_def)
  have d3: "netDial exOS exCtx ''tcp'' ?a = Inr exConn"
    by (simp add: exOS_def)
  have d4: "?silent exCtxNoDeadline ''tcp'' ?a = Inr exConnSilent"
    by simp
  have n1: "deadline exCtxNoDeadline = None"
    and n2: "deadline (exCtxNoDeadline\<lparr>cancelled := False\<rparr>) = None"
    and n3: "deadline exCtx = Some 10"
    by (simp_all add: exCtxNoDeadline_def exCtx_def)
  have quiet: "writeRes exConnSilent = Some (9, None) \<and> readRes exConnSilent = None"
    by (simp add: exConnSilent_def exConn_def)
  from prober_deadline_from_context [of "netDial exOS" exCtxNoDeadline ?a exConn 10] d1 n1
  have a: "waitUntilAvailable exCtxNoDeadline (netDial exOS) ?a =
      (fst (sendProbe exConn []),
       snd (sendProbe exConn []) @ (if fst (sendProbe exConn []) = Blocks then [] else [Close]))"
    by blast
  from prober_deadline_from_context [of "netDial exOS" exCtxNoDeadline ?a exConn 10] d1 n1 n2 d2
  have b: "waitUntilAvailable (exCtxNoDeadline\<lparr>cancelled := False\<rparr>) (netDial exOS) ?a =
      waitUntilAvailable exCtxNoDeadline (netDial exOS) ?a"
    by blast
  from prober_deadline_from_context [of "netDial exOS" exCtx ?a exConn 10] d3 n3
  have c: "SetDeadline 10 \<in> set (snd (waitUntilAvailable exCtx (netDial exOS) ?a))"
    by blast
  from prober_deadline_from_context [of ?silent exCtxNoDeadline ?a exConnSilent 10] d4 n1 quiet
  have e: "fst (waitUntilAvailable exCtxNoDeadline ?silent ?a) = Blocks"
    by blast
  have a': "waitUntilAvailable exCtxNoDeadline (netDial exOS) ?a =
      (Returns None, [Write invalidHTTPRequestLine, Read 1, Close])"
    unfolding a by (simp add: sendProbe_def exConn_def)
  from a' b c e show ?thesis by simp
qed

section \<open>Properties of the goroutine and its channel\<close>

lemma taskRun_spawn:
  "taskRun n r (spawnServe l) =
     (case r of
        None \<Rightarrow> spawnServe l
      | Some e \<Rightarrow>
          (if n = 0 then spawnServe l
           else if n = 1 then \<lparr>pc = Sending e, serving = l, buf = [], closed = False, sent = []\<rparr>
           else if n = 2 then \<lparr>pc = Closing, serving = l, buf = [e], closed = False, sent = [e]\<rparr>
           else \<lparr>pc = Exited, serving = l, buf = [e], closed = True, sent = [e]\<rparr>))"
proof (cases r)
  case None
  then show ?thesis by (cases n) (simp_all add: spawnServe_def taskStep_def)
next
  case (Some e)
  show ?thesis
  proof (cases n)
    case 0
    then show ?thesis by (simp add: Some)
  next
    case (Suc n1)
    note n = this
    show ?thesis
    proof (cases n1)
      case 0
      then show ?thesis by (simp add: Some n spawnServe_def taskStep_def)
    next
      case (Suc n2)
      note n1 = this
      show ?thesis
      proof (cases n2)
        case 0
        then show ?thesis by (simp add: Some n n1 spawnServe_def taskStep_def)
      next
        case (Suc n3)
        then show ?thesis
          by (cases n3) (simp_all add: Some n n1 spawnServe_def taskStep_def)
      qed
    qed
  qed
qed

lemma tryRecv_taskRun_spawn:
  "tryRecv (taskRun n r (spawnServe l)) =
     (case r of
        None \<Rightarrow> None
      | Some e \<Rightarrow>
          (if n < 2 then None
           else Some (Some e, (taskRun n r (spawnServe l))\<lparr>buf := []\<rparr>)))"
  unfolding taskRun_spawn by (cases r) (auto simp: tryRecv_def spawnServe_def)

lemma chanRecv_spawn:
  "chanRecv r (spawnServe l) =
     (case r of
        None \<Rightarrow> None
      | Some e \<Rightarrow>
          Some (Some e, \<lparr>pc = Closing, serving = l, buf = [], closed = False, sent = [e]\<rparr>))"
  by (cases r) (simp_all add: chanRecv.simps spawnServe_def tryRecv_def taskStep_def)

lemma chanRecv_drained:
  "chanRecv r \<lparr>pc = Closing, serving = l, buf = [], closed = False, sent = es\<rparr> =
     Some (None, \<lparr>pc = Exited, serving = l, buf = [], closed = True, sent = es\<rparr>)"
  by (simp add: chanRecv.simps tryRecv_def taskStep_def)

section \<open>Properties of the handle\<close>

lemma fold_applyOption_fields:
  "ln (fold applyOption opts h) = ln h \<and> errCh (fold applyOption opts h) = errCh h
   \<and> srvAddr (fold applyOption opts h) = srvAddr h"
proof (induction opts arbitrary: h)
  case Nil
  show ?case by simp
next
  case (Cons x xs)
  show ?case by (cases x) (simp_all add: Cons.IH)
qed

lemma NewHandle_ln: "ln (NewHandle a opts) = None"
  by (simp add: NewHandle_def fold_applyOption_fields)

lemma NewHandle_errCh: "errCh (NewHandle a opts) = None"
  by (simp add: NewHandle_def fold_applyOption_fields)

lemma Start_failed_handle:
  "fst (Start h c env w) \<noteq> Returns None \<Longrightarrow> fst (snd (Start h c env w)) = h"
  by (auto simp: Start_def Let_def split: sum.splits option.splits prod.splits outcome.splits)

lemma Start_ok:
  "Start h c env w = (Returns None, h', w') \<Longrightarrow>
     ln h = None \<and>
     (\<exists>l. listenFunc h (osState env) ''tcp'' (if srvAddr h = [] then '':0'' else srvAddr h) = Inr l \<and>
          h' = h\<lparr>errCh := Some (length (tasks w)), ln := Some l\<rparr> \<and>
          w' = w\<lparr>tasks := tasks w @ [spawnServe l]\<rparr>)"
  by (auto simp: Start_def Let_def
           split: sum.splits option.splits prod.splits if_splits outcome.splits)

lemma prober_error_shape:
  assumes res: "fst (waitUntilAvailable c d addr) = Returns (Some perr)"
  shows "isTimeout perr = (perr = DeadlineExceeded)"
proof (cases "d c ''tcp'' addr")
  case (Inl err)
  with res show ?thesis
    by (auto simp: wua_dial_failed isTimeout_def split: if_splits)
next
  case (Inr cn)
  with res show ?thesis
    by (auto simp: wua_dialled sendProbe_cases isTimeout_def
             split: option.splits if_splits prod.splits)
qed

text \<open>
  Claim C6. \<^verbatim>\<open>Start\<close> on a handle whose listener field is set returns the error
  "server is already running" and changes nothing: the handle is returned as it was
  (no field changes), and so is the world (no task is launched, no listener is made or
  closed).
\<close>

theorem Start_already_running:
  "ln h \<noteq> None \<Longrightarrow>
     Start h c env w = (Returns (Some (ErrorString ''server is already running'')), h, w)"
  by (simp add: Start_def)

text \<open>
  Claim C3. \<^verbatim>\<open>Start\<close> on an idle handle, with a listener \<open>l\<close> made and the prober
  failing with \<open>perr\<close>. A value is available on the completion channel at the
  \<^verbatim>\<open>select\<close> exactly when \<^verbatim>\<open>Serve\<close> has returned some \<open>e\<close> and the goroutine has been
  scheduled for its two steps (take the return of \<^verbatim>\<open>Serve\<close>, send it). Then \<^verbatim>\<open>Start\<close>
  returns the error of the serve task, wrapped as "error starting HTTP server", and
  closes no listener. Otherwise it closes \<open>l\<close> and returns the failure of the prober:
  \<^verbatim>\<open>context.DeadlineExceeded\<close> when that is what the prober returned (the only timeout
  the prober returns), and the prober's error wrapped as "error waiting for server to
  start up" in every other case. In both cases the handle is returned as it was:
  neither the listener nor the channel is recorded.
\<close>

theorem Start_probe_failure:
  "ln h = None \<Longrightarrow>
   listenFunc h (osState env) ''tcp'' (if srvAddr h = [] then '':0'' else srvAddr h) = Inr l \<Longrightarrow>
   fst (waitUntilAvailable c (newDialerFunc h (osState env)) (lnAddr l)) = Returns (Some perr) \<Longrightarrow>
   Start h c env w = (r, h', w') \<Longrightarrow>
     h' = h
     \<and> (\<forall>e. serveRes env = Some e \<and> 2 \<le> progress env \<longrightarrow>
           tryRecv (taskRun (progress env) (serveRes env) (spawnServe l)) \<noteq> None
           \<and> r = Returns (Some (Errorf ''error starting HTTP server: %v'' [ArgError e]))
           \<and> closedLns w' = closedLns w)
     \<and> (serveRes env = None \<or> progress env < 2 \<longrightarrow>
           tryRecv (taskRun (progress env) (serveRes env) (spawnServe l)) = None
           \<and> r = Returns (Some (if perr = DeadlineExceeded then DeadlineExceeded
                                 else Errorf ''%s: %v''
                                        [ArgString ''error waiting for server to start up'',
                                         ArgError perr]))
           \<and> closedLns w' = closedLns w @ [l])"
proof -
  assume idle: "ln h = None"
    and lis: "listenFunc h (osState env) ''tcp'' (if srvAddr h = [] then '':0'' else srvAddr h) = Inr l"
    and probe: "fst (waitUntilAvailable c (newDialerFunc h (osState env)) (lnAddr l)) = Returns (Some perr)"
    and start: "Start h c env w = (r, h', w')"
  have shape: "(asNetError perr = Some True) = (perr = DeadlineExceeded)"
    using prober_error_shape [OF probe] by (simp add: isTimeout_def)
  from idle lis probe start shape show ?thesis
    by (auto simp: Start_def Let_def tryRecv_taskRun_spawn argOfError_def
             split: option.splits)
qed

lemma exStart:
  "Start (NewHandle [] []) exCtx exStartEnv exWorld =
     (Returns None,
      (NewHandle [] [])\<lparr>errCh := Some 0, ln := Some (tcpKeepAliveListener exListener)\<rparr>,
      \<lparr>tasks = [spawnServe (tcpKeepAliveListener exListener)], closedLns = []\<rparr>)"
  by (simp add: Start_def NewHandle_def DefaultListenFunc_def newDialer_def exStartEnv_def
        exOS_def exWorld_def exCtx_def exConn_def exListener_def waitUntilAvailable_def
        sendProbe_def)

text \<open>
  The theorem of claim C6 on the handle a first successful \<^verbatim>\<open>Start\<close> has left: its
  listener is set, and a second \<^verbatim>\<open>Start\<close> is refused and changes nothing.
\<close>

theorem Start_already_running_witness:
  "ln (fst exStarted) \<noteq> None
   \<and> Start (fst exStarted) exCtx exStartEnv (snd exStarted) =
       (Returns (Some (ErrorString ''server is already running'')), fst exStarted, snd exStarted)"
  using Start_already_running [of "fst exStarted" exCtx exStartEnv "snd exStarted"]
  by (simp add: exStarted_def exStart)

text \<open>
  The theorem of claim C3 on a fresh handle: with a dial that is refused while the serve
  task has already failed and delivered its error; with a dial that times out while the
  server is still serving; and with a connection on which the deadline cannot be set
  while the server is still serving, where the prober's error is no timeout and is
  returned wrapped.
\<close>

theorem Start_probe_failure_witness:
  "fst (Start (NewHandle [] []) exCtx
          \<lparr>osState = exOSRefused, serveRes = Some (ErrorString ''accept failed''), progress = 3\<rparr>
          exWorld) =
     Returns (Some (Errorf ''error starting HTTP server: %v''
                      [ArgError (ErrorString ''accept failed'')]))
   \<and> fst (snd (Start (NewHandle [] []) exCtx
          \<lparr>osState = exOSRefused, serveRes = Some (ErrorString ''accept failed''), progress = 3\<rparr>
          exWorld)) = NewHandle [] []
   \<and> closedLns (snd (snd (Start (NewHandle [] []) exCtx
          \<lparr>osState = exOSRefused, serveRes = Some (ErrorString ''accept failed''), progress = 3\<rparr>
          exWorld))) = []
   \<and> fst (Start (NewHandle [] []) exCtx
          \<lparr>osState = exOSTimeout, serveRes = None, progress = 0\<rparr> exWorld) =
       Returns (Some DeadlineExceeded)
   \<and> fst (snd (Start (NewHandle [] []) exCtx
          \<lparr>osState = exOSTimeout, serveRes = None, progress = 0\<rparr> exWorld)) = NewHandle [] []
   \<and> closedLns (snd (snd (Start (NewHandle [] []) exCtx
          \<lparr>osState = exOSTimeout, serveRes = None, progress = 0\<rparr> exWorld))) =
       [tcpKeepAliveListener exListener]
   \<and> fst (Start (NewHandle [] []) exCtx
          \<lparr>osState = exOSNoDeadline, serveRes = None, progress = 0\<rparr> exWorld) =
       Returns (Some (Errorf ''%s: %v''
                        [ArgString ''error waiting for server to start up'',
                         ArgError (Errorf ''failed to set connection deadline to %v: %v''
                                     [ArgTime 10, ArgError (ErrorString ''use of closed file'')])]))
   \<and> closedLns (snd (snd (Start (NewHandle [] []) exCtx
          \<lparr>osState = exOSNoDeadline, serveRes = None, progress = 0\<rparr> exWorld))) =
       [tcpKeepAliveListener exListener]"
proof -
  let ?h = "NewHandle [] []"
  let ?e1 = "\<lparr>osState = exOSRefused, serveRes = Some (ErrorString ''accept failed''), progress = 3\<rparr>"
  let ?e2 = "\<lparr>osState = exOSTimeout, serveRes = None, progress = 0\<rparr>"
  let ?e3 = "\<lparr>osState = exOSNoDeadline, serveRes = None, progress = 0\<rparr>"
  let ?l = "tcpKeepAliveListener exListener"
  let ?p1 = "Errorf ''%s: %v''
              [ArgSprintf ''failed to dial to %q'' [ArgString (lnAddr ?l)],
               ArgError (NetError False ''connection refused'')]"
  let ?p3 = "Errorf ''failed to set connection deadline to %v: %v''
               [ArgTime 10, ArgError (ErrorString ''use of closed file'')]"
  have idle: "ln ?h = None" by (simp add: NewHandle_ln)
  have l1: "listenFunc ?h (osState ?e1) ''tcp'' (if srvAddr ?h = [] then '':0'' else srvAddr ?h) = Inr ?l"
    by (simp add: NewHandle_def DefaultListenFunc_def exOSRefused_def exOS_def)
  have l2: "listenFunc ?h (osState ?e2) ''tcp'' (if srvAddr ?h = [] then '':0'' else srvAddr ?h) = Inr ?l"
    by (simp add: NewHandle_def DefaultListenFunc_def exOSTimeout_def exOS_def)
  have l3: "listenFunc ?h (osState ?e3) ''tcp'' (if srvAddr ?h = [] then '':0'' else srvAddr ?h) = Inr ?l"
    by (simp add: NewHandle_def DefaultListenFunc_def exOSNoDeadline_def exOS_def)
  have p1: "fst (waitUntilAvailable exCtx (newDialerFunc ?h (osState ?e1)) (lnAddr ?l)) =
      Returns (Some ?p1)"
    by (simp add: NewHandle_def newDialer_def exOSRefused_def exOS_def waitUntilAvailable_def)
  have p2: "fst (waitUntilAvailable exCtx (newDialerFunc ?h (osState ?e2)) (lnAddr ?l)) =
      Returns (Some DeadlineExceeded)"
    by (simp add: NewHandle_def newDialer_def exOSTimeout_def exOS_def waitUntilAvailable_def)
  have p3: "fst (waitUntilAvailable exCtx (newDialerFunc ?h (osState ?e3)) (lnAddr ?l)) =
      Returns (Some ?p3)"
    by (simp add: NewHandle_def newDialer_def exOSNoDeadline_def exOS_def waitUntilAvailable_def
          exConnNoDeadline_def exConn_def exCtx_def)
  from Start_probe_failure [OF idle l1 p1, of exWorld "fst (Start ?h exCtx ?e1 exWorld)"
      "fst (snd (Start ?h exCtx ?e1 exWorld))" "snd (snd (Start ?h exCtx ?e1 exWorld))"]
  have r1: "fst (snd (Start ?h exCtx ?e1 exWorld)) = ?h
      \<and> fst (Start ?h exCtx ?e1 exWorld) =
          Returns (Some (Errorf ''error starting HTTP server: %v''
                           [ArgError (ErrorString ''accept failed'')]))
      \<and> closedLns (snd (snd (Start ?h exCtx ?e1 exWorld))) = []"
    by (simp add: exWorld_def)
  from Start_probe_failure [OF idle l2 p2, of exWorld "fst (Start ?h exCtx ?e2 exWorld)"
      "fst (snd (Start ?h exCtx ?e2 exWorld))" "snd (snd (Start ?h exCtx ?e2 exWorld))"]
  have r2: "fst (snd (Start ?h exCtx ?e2 exWorld)) = ?h
      \<and> fst (Start ?h exCtx ?e2 exWorld) = Returns (Some DeadlineExceeded)
      \<and> closedLns (snd (snd (Start ?h exCtx ?e2 exWorld))) = [?l]"
    by (simp add: exWorld_def)
  from Start_probe_failure [OF idle l3 p3, of exWorld "fst (Start ?h exCtx ?e3 exWorld)"
      "fst (snd (Start ?h exCtx ?e3 exWorld))" "snd (snd (Start ?h exCtx ?e3 exWorld))"]
  have r3: "fst (Start ?h exCtx ?e3 exWorld) =
          Returns (Some (Errorf ''%s: %v''
                           [ArgString ''error waiting for server to start up'', ArgError ?p3]))
      \<and> closedLns (snd (snd (Start ?h exCtx ?e3 exWorld))) = [?l]"
    by (simp add: exWorld_def)
  from r1 r2 r3 show ?thesis by simp
qed

section \<open>The keep-alive wrapper and the default listener factory\<close>

text \<open>
  Claim C7, as the code has it. \<^verbatim>\<open>Accept\<close> of the keep-alive wrapper returns an error of
  the underlying \<^verbatim>\<open>AcceptTCP\<close> as it is, and returns every accepted connection without an
  error, after calling \<^verbatim>\<open>SetKeepAlive(true)\<close> and
  \<^verbatim>\<open>SetKeepAlivePeriod(3 * time.Minute)\<close> on it and discarding what they return. So the
  connection has keep-alive switched on when the first setter succeeds, has the period
  of three minutes (180000000000 nanoseconds) when the second succeeds, and has both when
  both do; when the first setter fails the connection is returned with its keep-alive
  flag as it was. \<^verbatim>\<open>DefaultListenFunc\<close> wraps the listener of \<^verbatim>\<open>net.Listen\<close> when it is a
  \<^verbatim>\<open>*net.TCPListener\<close>, returns a listener of any other type as it is, and returns the
  error of \<^verbatim>\<open>net.Listen\<close> as it is.
\<close>

theorem keepalive_accept_and_default_listen:
  "Accept (Inl err) = Inl err
   \<and> (\<exists>tc'. Accept (Inr tc) = Inr tc')
   \<and> (setKeepAliveRes tc = None \<and> setKeepAlivePeriodRes tc = None \<longrightarrow>
        Accept (Inr tc) = Inr (tc\<lparr>keepAlive := True, keepAlivePeriod := 180000000000\<rparr>))
   \<and> (setKeepAliveRes tc = None \<longrightarrow>
        (\<exists>tc'. Accept (Inr tc) = Inr tc' \<and> keepAlive tc'))
   \<and> (setKeepAlivePeriodRes tc = None \<longrightarrow>
        (\<exists>tc'. Accept (Inr tc) = Inr tc' \<and> keepAlivePeriod tc' = 180000000000))
   \<and> (\<forall>serr. setKeepAliveRes tc = Some serr \<longrightarrow>
        (\<exists>tc'. Accept (Inr tc) = Inr tc' \<and> keepAlive tc' = keepAlive tc))
   \<and> (netListen e network address = Inr (TCPListener tcp) \<longrightarrow>
        DefaultListenFunc e network address = Inr (tcpKeepAliveListener tcp))
   \<and> (netListen e network address = Inr l \<and> (\<forall>x. l \<noteq> TCPListener x) \<longrightarrow>
        DefaultListenFunc e network address = Inr l)
   \<and> (netListen e network address = Inl err \<longrightarrow>
        DefaultListenFunc e network address = Inl err)"
  by (auto simp: SetKeepAlive_def SetKeepAlivePeriod_def Minute_def DefaultListenFunc_def
           split: listener.splits option.splits prod.splits)

text \<open>
  The theorem on a connection on which both options can be set, on a network that binds
  a TCP listener, on one that binds a listener of another type, and on one that fails.
\<close>

theorem keepalive_accept_and_default_listen_witness:
  "Accept (Inr exTcpConn) =
     Inr (exTcpConn\<lparr>keepAlive := True, keepAlivePeriod := 180000000000\<rparr>)
   \<and> DefaultListenFunc exOS ''tcp'' '':0'' = Inr (tcpKeepAliveListener exListener)
   \<and> DefaultListenFunc (exOS\<lparr>netListen := (\<lambda>network address. Inr (OtherListener address))\<rparr>)
        ''unix'' ''/tmp/sock'' = Inr (OtherListener ''/tmp/sock'')
   \<and> DefaultListenFunc
        (exOS\<lparr>netListen := (\<lambda>network address. Inl (ErrorString ''address already in use''))\<rparr>)
        ''tcp'' '':80'' = Inl (ErrorString ''address already in use'')"
proof -
  let ?other = "exOS\<lparr>netListen := (\<lambda>network address. Inr (OtherListener address))\<rparr>"
  let ?failing =
    "exOS\<lparr>netListen := (\<lambda>network address. Inl (ErrorString ''address already in use''))\<rparr>"
  have s: "setKeepAliveRes exTcpConn = None \<and> setKeepAlivePeriodRes exTcpConn = None"
    by (simp add: exTcpConn_def)
  have n1: "netListen exOS ''tcp'' '':0'' = Inr (TCPListener exListener)"
    by (simp add: exOS_def)
  have n2: "netListen ?other ''unix'' ''/tmp/sock'' = Inr (OtherListener ''/tmp/sock'')"
    by simp
  have n3: "netListen ?failing ''tcp'' '':80'' = Inl (ErrorString ''address already in use'')"
    by simp
  from keepalive_accept_and_default_listen
         [of "ErrorString ''x''" exTcpConn exOS "''tcp''" "'':0''" exListener
             "tcpKeepAliveListener exListener"] s n1
  have a: "Accept (Inr exTcpConn) =
        Inr (exTcpConn\<lparr>keepAlive := True, keepAlivePeriod := 180000000000\<rparr>)
      \<and> DefaultListenFunc exOS ''tcp'' '':0'' = Inr (tcpKeepAliveListener exListener)"
    by blast
  from keepalive_accept_and_default_listen
         [of "ErrorString ''x''" exTcpConn ?other "''unix''" "''/tmp/sock''" exListener
             "OtherListener ''/tmp/sock''"] n2
  have b: "DefaultListenFunc ?other ''unix'' ''/tmp/sock'' = Inr (OtherListener ''/tmp/sock'')"
    by blast
  from keepalive_accept_and_default_listen
         [of "ErrorString ''address already in use''" exTcpConn ?failing "''tcp''" "'':80''"
             exListener "OtherListener ''/tmp/sock''"] n3
  have c: "DefaultListenFunc ?failing ''tcp'' '':80'' = Inl (ErrorString ''address already in use'')"
    by blast
  from a b c show ?thesis by simp
qed

text \<open>
  Claim C7 as the specification states it says that every accepted connection is
  returned with keep-alive enabled. It fails on a connection on which the socket option
  cannot be set: \<^verbatim>\<open>SetKeepAlive\<close> returns an error, the source discards it, and
  \<^verbatim>\<open>Accept\<close> returns the connection without an error and with keep-alive still off.
\<close>

theorem keepalive_not_enabled_counterexample:
  "keepAlive exTcpConnRefusing = False
   \<and> Accept (Inr exTcpConnRefusing) = Inr (exTcpConnRefusing\<lparr>keepAlivePeriod := 180000000000\<rparr>)
   \<and> keepAlive (exTcpConnRefusing\<lparr>keepAlivePeriod := 180000000000\<rparr>) = False"
  by (simp add: exTcpConnRefusing_def exTcpConn_def SetKeepAlive_def SetKeepAlivePeriod_def
        Minute_def)

section \<open>Shutdown\<close>

lemma Shutdown_cases:
  "Shutdown h c env w =
     (case srvShutdown env c of
        Some err \<Rightarrow> (Returns (Some err), h, w)
      | None \<Rightarrow>
          (case awaitServe h env w of
             None \<Rightarrow> (Blocks, h, w)
           | Some (v, w') \<Rightarrow>
               (case v of
                  None \<Rightarrow> (Returns None, h, w')
                | Some e \<Rightarrow>
                    if e = ErrServerClosed then (Returns None, h\<lparr>ln := None\<rparr>, w')
                    else (Returns (Some e), h, w'))))"
  by (simp add: Shutdown_def split: option.splits prod.splits)

text \<open>
  Claim C9. A freshly constructed handle has no listener and a nil completion channel,
  whatever options it was built with. When the graceful shutdown of the server returns
  no error, \<^verbatim>\<open>Shutdown\<close> on that handle reaches the receive from the nil channel, which
  never completes: \<^verbatim>\<open>Shutdown\<close> never returns, although the handle is idle. The same
  holds after any \<^verbatim>\<open>Start\<close> that failed, since only a successful \<^verbatim>\<open>Start\<close> sets
  the channel.
\<close>

theorem Shutdown_fresh_handle_blocks:
  "srvShutdown env c = None \<Longrightarrow>
     ln (NewHandle a opts) = None
     \<and> errCh (NewHandle a opts) = None
     \<and> awaitServe (NewHandle a opts) env w = None
     \<and> Shutdown (NewHandle a opts) c env w = (Blocks, NewHandle a opts, w)
     \<and> (\<forall>c0 env0 e. fst (Start (NewHandle a opts) c0 env0 w) = Returns (Some e) \<longrightarrow>
          fst (Shutdown (fst (snd (Start (NewHandle a opts) c0 env0 w))) c env
                 (snd (snd (Start (NewHandle a opts) c0 env0 w)))) = Blocks)"
  by (auto simp: NewHandle_ln NewHandle_errCh awaitServe_def Shutdown_def Start_failed_handle)

text \<open>The theorem on a fresh handle and a server that shuts down gracefully.\<close>

theorem Shutdown_fresh_handle_blocks_witness:
  "Shutdown (NewHandle [] []) exCtx exShutdownEnv exWorld = (Blocks, NewHandle [] [], exWorld)
   \<and> ln (NewHandle [] []) = None"
  using Shutdown_fresh_handle_blocks [of exShutdownEnv exCtx "[]" "[]" exWorld]
  by (simp add: exShutdownEnv_def)

lemma sent_taskRun_spawn: "length (sent (taskRun n r (spawnServe l))) \<le> 1"
  unfolding taskRun_spawn by (cases r) (simp_all add: spawnServe_def)

lemma cycle_state:
  assumes start: "Start h c env w = (Returns None, h1, w1)"
      and down: "Shutdown h1 c1 env1 w1 = (Returns None, h2, w2)"
  shows "\<exists>l. h2 = h\<lparr>errCh := Some (length (tasks w)), ln := None\<rparr>
           \<and> w2 = w\<lparr>tasks := tasks w @
                 [\<lparr>pc = Closing, serving = l, buf = [], closed = False, sent = [ErrServerClosed]\<rparr>]\<rparr>"
proof -
  from Start_ok [OF start] obtain l where
    h1: "h1 = h\<lparr>errCh := Some (length (tasks w)), ln := Some l\<rparr>" and
    w1: "w1 = w\<lparr>tasks := tasks w @ [spawnServe l]\<rparr>"
    by blast
  have recv: "awaitServe h1 env1 w1 =
      (case serveReturns env1 of
         None \<Rightarrow> None
       | Some e \<Rightarrow>
           Some (Some e, w\<lparr>tasks := tasks w @
             [\<lparr>pc = Closing, serving = l, buf = [], closed = False, sent = [e]\<rparr>]\<rparr>))"
    by (simp add: awaitServe_def h1 w1 chanRecv_spawn split: option.splits)
  from down show ?thesis
    unfolding Shutdown_cases recv
    by (auto simp: h1 split: option.splits if_splits)
qed

text \<open>
  Claim C8. The serve goroutine, once \<^verbatim>\<open>Serve\<close> has returned \<open>e\<close>, sends \<open>e\<close> on the
  channel, closes the channel and stops: run to its end it leaves the channel closed
  with exactly the one value \<open>e\<close> sent, it has no further step, and under no schedule
  is more than one value ever sent. After a \<^verbatim>\<open>Start\<close> that succeeded and a \<^verbatim>\<open>Shutdown\<close>
  that succeeded, the handle is idle and a second \<^verbatim>\<open>Shutdown\<close> never blocks: when the
  graceful shutdown returns no error, the receive from the drained channel completes
  with the zero value (the goroutine closes the channel) and \<^verbatim>\<open>Shutdown\<close> returns nil.
\<close>

theorem completion_signal_written_once_then_closed:
  "taskRun 3 (Some e) (spawnServe l) =
     \<lparr>pc = Exited, serving = l, buf = [e], closed = True, sent = [e]\<rparr>
   \<and> taskStep r (taskRun 3 (Some e) (spawnServe l)) = None
   \<and> (\<forall>n. length (sent (taskRun n r (spawnServe l))) \<le> 1)
   \<and> (Start h c env w = (Returns None, h1, w1) \<and>
        Shutdown h1 c1 env1 w1 = (Returns None, h2, w2) \<longrightarrow>
        ln h2 = None
        \<and> fst (Shutdown h2 c2 env2 w2) \<noteq> Blocks
        \<and> (srvShutdown env2 c2 = None \<longrightarrow>
             (\<exists>w3. awaitServe h2 env2 w2 = Some (None, w3))
             \<and> fst (Shutdown h2 c2 env2 w2) = Returns None))"
proof -
  have once: "taskRun 3 (Some e) (spawnServe l) =
      \<lparr>pc = Exited, serving = l, buf = [e], closed = True, sent = [e]\<rparr>"
    by (simp add: taskRun_spawn)
  have stops: "taskStep r (taskRun 3 (Some e) (spawnServe l)) = None"
    by (simp add: once taskStep_def)
  have second: "ln h2 = None
        \<and> fst (Shutdown h2 c2 env2 w2) \<noteq> Blocks
        \<and> (srvShutdown env2 c2 = None \<longrightarrow>
             (\<exists>w3. awaitServe h2 env2 w2 = Some (None, w3))
             \<and> fst (Shutdown h2 c2 env2 w2) = Returns None)"
    if start: "Start h c env w = (Returns None, h1, w1)"
      and down: "Shutdown h1 c1 env1 w1 = (Returns None, h2, w2)"
  proof -
    from cycle_state [OF start down] obtain l' where
      h2: "h2 = h\<lparr>errCh := Some (length (tasks w)), ln := None\<rparr>" and
      w2: "w2 = w\<lparr>tasks := tasks w @
             [\<lparr>pc = Closing, serving = l', buf = [], closed = False, sent = [ErrServerClosed]\<rparr>]\<rparr>"
      by blast
    have recv: "awaitServe h2 env2 w2 =
        Some (None, w\<lparr>tasks := tasks w @
          [\<lparr>pc = Exited, serving = l', buf = [], closed = True, sent = [ErrServerClosed]\<rparr>]\<rparr>)"
      by (simp add: awaitServe_def h2 w2 chanRecv_drained)
    show ?thesis
      unfolding Shutdown_cases recv
      by (simp add: h2 split: option.splits)
  qed
  from once stops second sent_taskRun_spawn show ?thesis by blast
qed



section \<open>The lifecycle across sequences of calls\<close>

lemma Start_ln:
  "Start h c env w = (r, h', w') \<Longrightarrow>
     (ln h' \<noteq> None) = (ln h \<noteq> None \<or> r = Returns None)"
  by (auto simp: Start_def Let_def
           split: sum.splits option.splits prod.splits if_splits outcome.splits)

lemma Shutdown_ln:
  "Shutdown h c env w = (out, h', w') \<Longrightarrow>
     ln h' = (if gotSentinel h c env w then None else ln h)"
  by (auto simp: Shutdown_cases gotSentinel_def split: option.splits if_splits)

lemma exec_track:
  assumes "exec x (h, w) = (out, h', w')" and "(ln h \<noteq> None) = (s = Running)"
  shows "(ln h' \<noteq> None) = (track s x (h, w) = Running)"
proof (cases x)
  case (CallStart c env)
  with assms show ?thesis
    by (auto dest: Start_ln)
next
  case (CallShutdown c env)
  with assms show ?thesis
    by (auto dest: Shutdown_ln)
qed

lemma exec_Blocks:
  "exec x (h, w) = (Blocks, h', w') \<Longrightarrow> h' = h"
  by (cases x)
     (auto simp: Shutdown_cases Start_def Let_def
           split: option.splits if_splits prod.splits sum.splits outcome.splits)

lemma run_tracks:
  "run calls (h0, w0) = (outs, h, w) \<Longrightarrow> (ln h0 \<noteq> None) = (s0 = Running) \<Longrightarrow>
     (ln h \<noteq> None) = (lifecycleAfter s0 calls (h0, w0) = Running)"
proof (induction calls arbitrary: h0 w0 s0 outs)
  case Nil
  then show ?case by simp
next
  case (Cons x xs)
  obtain out h1 w1 where ex: "exec x (h0, w0) = (out, h1, w1)"
    by (cases "exec x (h0, w0)") auto
  show ?case
  proof (cases out)
    case Blocks
    with ex Cons.prems exec_Blocks [of x h0 w0 h1 w1] show ?thesis by simp
  next
    case (Returns r)
    obtain outs' where rest: "run xs (h1, w1) = (outs', h, w)"
      using Cons.prems(1) ex Returns by (cases "run xs (h1, w1)") auto
    have "(ln h1 \<noteq> None) = (track s0 x (h0, w0) = Running)"
      using exec_track [OF ex Cons.prems(2)] .
    from Cons.IH [OF rest this] show ?thesis
      by (simp add: ex Returns)
  qed
qed

section \<open>Concrete runs\<close>

lemma exSrvShutdown: "srvShutdown exShutdownEnv c = None"
  by (simp add: exShutdownEnv_def)

lemma exShutdown_started:
  "srvShutdown env c = None \<Longrightarrow>
   Shutdown ((NewHandle [] [])\<lparr>errCh := Some 0, ln := Some (tcpKeepAliveListener exListener)\<rparr>) c env
      \<lparr>tasks = [spawnServe (tcpKeepAliveListener exListener)], closedLns = []\<rparr> =
     (case serveReturns env of
        None \<Rightarrow>
          (Blocks,
           (NewHandle [] [])\<lparr>errCh := Some 0, ln := Some (tcpKeepAliveListener exListener)\<rparr>,
           \<lparr>tasks = [spawnServe (tcpKeepAliveListener exListener)], closedLns = []\<rparr>)
      | Some e \<Rightarrow>
          (if e = ErrServerClosed then Returns None else Returns (Some e),
           (NewHandle [] [])\<lparr>errCh := Some 0,
              ln := (if e = ErrServerClosed then None else Some (tcpKeepAliveListener exListener))\<rparr>,
           \<lparr>tasks = [\<lparr>pc = Closing, serving = tcpKeepAliveListener exListener, buf = [],
                       closed = False, sent = [e]\<rparr>],
            closedLns = []\<rparr>))"
  by (simp add: Shutdown_cases awaitServe_def chanRecv_spawn split: option.splits)

lemma exShutdown_drained:
  "srvShutdown env c = None \<Longrightarrow>
   Shutdown ((NewHandle [] [])\<lparr>errCh := Some 0, ln := x\<rparr>) c env
      \<lparr>tasks = [\<lparr>pc = Closing, serving = l, buf = [], closed = False, sent = es\<rparr>],
       closedLns = []\<rparr> =
     (Returns None, (NewHandle [] [])\<lparr>errCh := Some 0, ln := x\<rparr>,
      \<lparr>tasks = [\<lparr>pc = Exited, serving = l, buf = [], closed = True, sent = es\<rparr>],
       closedLns = []\<rparr>)"
  by (simp add: Shutdown_cases awaitServe_def chanRecv_drained)

lemma exRunCycle:
  "run exCycle (NewHandle [] [], exWorld) =
     ([Returns None, Returns None],
      (NewHandle [] [])\<lparr>errCh := Some 0, ln := None\<rparr>,
      \<lparr>tasks = [\<lparr>pc = Closing, serving = tcpKeepAliveListener exListener, buf = [],
                  closed = False, sent = [ErrServerClosed]\<rparr>],
       closedLns = []\<rparr>)"
  by (simp add: exCycle_def exStart exShutdown_started exShutdownEnv_def)

lemma exRunFailed:
  "run exCallsFailed (NewHandle [] [], exWorld) =
     ([Returns None, Returns (Some (ErrorString ''accept failed'')), Returns None],
      (NewHandle [] [])\<lparr>errCh := Some 0, ln := Some (tcpKeepAliveListener exListener)\<rparr>,
      \<lparr>tasks = [\<lparr>pc = Exited, serving = tcpKeepAliveListener exListener, buf = [],
                  closed = True, sent = [ErrorString ''accept failed'']\<rparr>],
       closedLns = []\<rparr>)"
  by (simp add: exCallsFailed_def exStart exShutdown_started exShutdown_drained
        exShutdownEnv_def exServeFailed_def)

lemma exStarted_eq:
  "exStarted =
     ((NewHandle [] [])\<lparr>errCh := Some 0, ln := Some (tcpKeepAliveListener exListener)\<rparr>,
      \<lparr>tasks = [spawnServe (tcpKeepAliveListener exListener)], closedLns = []\<rparr>)"
  by (simp add: exStarted_def exStart)

lemma exAfterCycle_eq:
  "exAfterCycle =
     ((NewHandle [] [])\<lparr>errCh := Some 0, ln := None\<rparr>,
      \<lparr>tasks = [\<lparr>pc = Closing, serving = tcpKeepAliveListener exListener, buf = [],
                  closed = False, sent = [ErrServerClosed]\<rparr>],
       closedLns = []\<rparr>)"
  by (simp add: exAfterCycle_def exRunCycle)

text \<open>
  The theorem of claim C8 on a fresh handle: one \<^verbatim>\<open>Start\<close> and one \<^verbatim>\<open>Shutdown\<close>
  succeed, the handle is idle, and a second \<^verbatim>\<open>Shutdown\<close> returns nil.
\<close>

theorem completion_signal_written_once_then_closed_witness:
  "Start (NewHandle [] []) exCtx exStartEnv exWorld =
     (Returns None, fst exStarted, snd exStarted)
   \<and> Shutdown (fst exStarted) exCtx exShutdownEnv (snd exStarted) =
       (Returns None, fst exAfterCycle, snd exAfterCycle)
   \<and> ln (fst exAfterCycle) = None
   \<and> fst (Shutdown (fst exAfterCycle) exCtx exShutdownEnv (snd exAfterCycle)) = Returns None"
proof -
  have start: "Start (NewHandle [] []) exCtx exStartEnv exWorld =
      (Returns None, fst exStarted, snd exStarted)"
    by (simp add: exStarted_eq exStart)
  have down: "Shutdown (fst exStarted) exCtx exShutdownEnv (snd exStarted) =
      (Returns None, fst exAfterCycle, snd exAfterCycle)"
    by (simp add: exStarted_eq exAfterCycle_eq exShutdown_started exSrvShutdown)
       (simp add: exShutdownEnv_def)
  from completion_signal_written_once_then_closed [of ErrServerClosed "tcpKeepAliveListener exListener" None "NewHandle [] []" exCtx
      exStartEnv exWorld "fst exStarted" "snd exStarted" exCtx exShutdownEnv "fst exAfterCycle"
      "snd exAfterCycle" exCtx exShutdownEnv] start down
  show ?thesis by (simp add: exSrvShutdown)
qed


section \<open>The branches of Shutdown\<close>

text \<open>
  Claim C2, as the code has it. When the graceful shutdown of the server returns an
  error, \<^verbatim>\<open>Shutdown\<close> returns that error at once: nothing is received, handle and
  world are unchanged. Otherwise it waits on the completion channel, and never returns
  if that wait never completes. Receiving \<^verbatim>\<open>http.ErrServerClosed\<close> is success: nil is
  returned and the listener is cleared. Receiving any other error returns that error
  and leaves the listener. Receiving the zero value, which is what a closed and drained
  channel yields, returns it as it is, that is nil, and leaves the listener. The
  listener changes only when \<^verbatim>\<open>http.ErrServerClosed\<close> was received, and then
  \<^verbatim>\<open>Shutdown\<close> returns nil.
\<close>

theorem Shutdown_branches:
  "(srvShutdown env c = Some err \<longrightarrow> Shutdown h c env w = (Returns (Some err), h, w))
   \<and> (srvShutdown env c = None \<and> awaitServe h env w = None \<longrightarrow>
        Shutdown h c env w = (Blocks, h, w))
   \<and> (srvShutdown env c = None \<and> awaitServe h env w = Some (Some ErrServerClosed, w') \<longrightarrow>
        Shutdown h c env w = (Returns None, h\<lparr>ln := None\<rparr>, w'))
   \<and> (srvShutdown env c = None \<and> awaitServe h env w = Some (Some e, w') \<and> e \<noteq> ErrServerClosed \<longrightarrow>
        Shutdown h c env w = (Returns (Some e), h, w'))
   \<and> (srvShutdown env c = None \<and> awaitServe h env w = Some (None, w') \<longrightarrow>
        Shutdown h c env w = (Returns None, h, w'))
   \<and> (ln (fst (snd (Shutdown h c env w))) \<noteq> ln h \<longrightarrow>
        fst (Shutdown h c env w) = Returns None \<and> gotSentinel h c env w)"
  by (auto simp: Shutdown_cases gotSentinel_def split: option.splits)



text \<open>
  The theorem on the handle left by a successful \<^verbatim>\<open>Start\<close>, with a graceful shutdown
  that times out, with a graceful close, and with a serve task that failed on its own;
  and on the handle left by a whole cycle, whose channel is drained.
\<close>

theorem Shutdown_branches_witness:
  "Shutdown (fst exStarted) exCtx (exShutdownEnv\<lparr>srvShutdown := (\<lambda>c. Some DeadlineExceeded)\<rparr>)
      (snd exStarted) = (Returns (Some DeadlineExceeded), fst exStarted, snd exStarted)
   \<and> fst (Shutdown (fst exStarted) exCtx exShutdownEnv (snd exStarted)) = Returns None
   \<and> ln (fst (snd (Shutdown (fst exStarted) exCtx exShutdownEnv (snd exStarted)))) = None
   \<and> fst (Shutdown (fst exStarted) exCtx exServeFailed (snd exStarted)) =
       Returns (Some (ErrorString ''accept failed''))
   \<and> ln (fst (snd (Shutdown (fst exStarted) exCtx exServeFailed (snd exStarted)))) =
       ln (fst exStarted)
   \<and> fst (Shutdown (fst exAfterCycle) exCtx exShutdownEnv (snd exAfterCycle)) = Returns None
   \<and> fst (snd (Shutdown (fst exAfterCycle) exCtx exShutdownEnv (snd exAfterCycle))) =
       fst exAfterCycle"
proof -
  let ?t = "\<lambda>e. \<lparr>tasks = [\<lparr>pc = Closing, serving = tcpKeepAliveListener exListener, buf = [],
                  closed = False, sent = [e]\<rparr>], closedLns = []\<rparr>"
  have a1: "awaitServe (fst exStarted) exShutdownEnv (snd exStarted) =
      Some (Some ErrServerClosed, ?t ErrServerClosed)"
    by (simp add: exStarted_eq awaitServe_def chanRecv_spawn exShutdownEnv_def)
  have a2: "awaitServe (fst exStarted) exServeFailed (snd exStarted) =
      Some (Some (ErrorString ''accept failed''), ?t (ErrorString ''accept failed''))"
    by (simp add: exStarted_eq awaitServe_def chanRecv_spawn exServeFailed_def)
  have a3: "awaitServe (fst exAfterCycle) exShutdownEnv (snd exAfterCycle) =
      Some (None, \<lparr>tasks = [\<lparr>pc = Exited, serving = tcpKeepAliveListener exListener, buf = [],
                  closed = True, sent = [ErrServerClosed]\<rparr>], closedLns = []\<rparr>)"
    by (simp add: exAfterCycle_eq awaitServe_def chanRecv_drained)
  have s2: "srvShutdown exServeFailed exCtx = None" by (simp add: exServeFailed_def)
  note inst1 = Shutdown_branches [of "exShutdownEnv\<lparr>srvShutdown := (\<lambda>c. Some DeadlineExceeded)\<rparr>" exCtx
      DeadlineExceeded "fst exStarted" "snd exStarted" "snd exStarted" DeadlineExceeded]
  note inst2 = Shutdown_branches [of exShutdownEnv exCtx DeadlineExceeded "fst exStarted" "snd exStarted"
      "?t ErrServerClosed" ErrServerClosed]
  note inst3 = Shutdown_branches [of exServeFailed exCtx DeadlineExceeded "fst exStarted" "snd exStarted"
      "?t (ErrorString ''accept failed'')" "ErrorString ''accept failed''"]
  note inst4 = Shutdown_branches [of exShutdownEnv exCtx DeadlineExceeded "fst exAfterCycle" "snd exAfterCycle"
      "\<lparr>tasks = [\<lparr>pc = Exited, serving = tcpKeepAliveListener exListener, buf = [],
                  closed = True, sent = [ErrServerClosed]\<rparr>], closedLns = []\<rparr>" ErrServerClosed]
  from inst1 inst2 inst3 inst4 a1 a2 a3 s2 show ?thesis
    by (simp add: exSrvShutdown)
qed


text \<open>
  Claim C2 as the specification states it says that every received value other than
  \<^verbatim>\<open>http.ErrServerClosed\<close> is surfaced as a failure. It fails on the second
  \<^verbatim>\<open>Shutdown\<close> after a cycle that succeeded: the graceful shutdown returns no error, the
  value received from the closed and drained channel is nil and not the sentinel, and
  \<^verbatim>\<open>Shutdown\<close> returns nil, a success.
\<close>

theorem Shutdown_drained_signal_counterexample:
  "fst (run exCycle (NewHandle [] [], exWorld)) = [Returns None, Returns None]
   \<and> srvShutdown exShutdownEnv exCtx = None
   \<and> map_option fst (awaitServe (fst exAfterCycle) exShutdownEnv (snd exAfterCycle)) = Some None
   \<and> map_option fst (awaitServe (fst exAfterCycle) exShutdownEnv (snd exAfterCycle)) \<noteq>
       Some (Some ErrServerClosed)
   \<and> fst (Shutdown (fst exAfterCycle) exCtx exShutdownEnv (snd exAfterCycle)) = Returns None"
  by (simp add: exAfterCycle_def exRunCycle exShutdown_drained exSrvShutdown awaitServe_def
        chanRecv_drained)

section \<open>The lifecycle invariant\<close>

text \<open>
  Claim C1, as the code has it. After every sequence of \<^verbatim>\<open>Start\<close> and \<^verbatim>\<open>Shutdown\<close>
  calls on a freshly constructed handle, under any surroundings, the listener field is
  set exactly when the handle is running in this sense: some \<^verbatim>\<open>Start\<close> has returned
  success, and no later \<^verbatim>\<open>Shutdown\<close> has received \<^verbatim>\<open>http.ErrServerClosed\<close> from the
  completion channel. \<^verbatim>\<open>Addr()\<close> returns the address of the listener exactly then, and
  nil otherwise; on a fresh handle it returns nil.
\<close>

theorem listener_set_iff_running:
  "run calls (NewHandle a opts, w0) = (outs, h, w) \<Longrightarrow>
     (ln h \<noteq> None) = (lifecycleAfter Idle calls (NewHandle a opts, w0) = Running)
     \<and> (Addr h \<noteq> None) = (lifecycleAfter Idle calls (NewHandle a opts, w0) = Running)
     \<and> (\<forall>l. ln h = Some l \<longrightarrow> Addr h = Some (lnAddr l))
     \<and> Addr (NewHandle a opts) = None"
  using run_tracks [of calls "NewHandle a opts" w0 outs h w Idle]
  by (auto simp: Addr_def NewHandle_ln split: option.splits)


text \<open>
  The theorem after one successful \<^verbatim>\<open>Start\<close> (running, the address is returned) and
  after a whole cycle (idle, no address).
\<close>

theorem listener_set_iff_running_witness:
  "ln (fst (snd (run [CallStart exCtx exStartEnv] (NewHandle [] [], exWorld)))) =
     Some (tcpKeepAliveListener exListener)
   \<and> lifecycleAfter Idle [CallStart exCtx exStartEnv] (NewHandle [] [], exWorld) = Running
   \<and> Addr (fst (snd (run [CallStart exCtx exStartEnv] (NewHandle [] [], exWorld)))) =
       Some ''127.0.0.1:8080''
   \<and> ln (fst (snd (run exCycle (NewHandle [] [], exWorld)))) = None
   \<and> lifecycleAfter Idle exCycle (NewHandle [] [], exWorld) = Idle
   \<and> Addr (fst (snd (run exCycle (NewHandle [] [], exWorld)))) = None"
proof -
  have r1: "run [CallStart exCtx exStartEnv] (NewHandle [] [], exWorld) = ([Returns None], exStarted)"
    by (simp add: exStart exStarted_eq)
  have r2: "run exCycle (NewHandle [] [], exWorld) = ([Returns None, Returns None], exAfterCycle)"
    by (simp add: exRunCycle exAfterCycle_eq)
  from listener_set_iff_running [of "[CallStart exCtx exStartEnv]" "[]" "[]" exWorld "[Returns None]" "fst exStarted"
      "snd exStarted"] r1
  have w1: "(ln (fst exStarted) \<noteq> None) =
        (lifecycleAfter Idle [CallStart exCtx exStartEnv] (NewHandle [] [], exWorld) = Running)
      \<and> (\<forall>l. ln (fst exStarted) = Some l \<longrightarrow> Addr (fst exStarted) = Some (lnAddr l))"
    by simp
  from listener_set_iff_running [of exCycle "[]" "[]" exWorld "[Returns None, Returns None]" "fst exAfterCycle"
      "snd exAfterCycle"] r2
  have w2: "(ln (fst exAfterCycle) \<noteq> None) =
        (lifecycleAfter Idle exCycle (NewHandle [] [], exWorld) = Running)
      \<and> (Addr (fst exAfterCycle) \<noteq> None) =
        (lifecycleAfter Idle exCycle (NewHandle [] [], exWorld) = Running)"
    by simp
  have l1: "ln (fst exStarted) = Some (tcpKeepAliveListener exListener)"
    by (simp add: exStarted_eq)
  have l2: "ln (fst exAfterCycle) = None"
    by (simp add: exAfterCycle_eq)
  from w1 l1 have s1: "lifecycleAfter Idle [CallStart exCtx exStartEnv] (NewHandle [] [], exWorld) = Running"
    by simp
  from w2 l2 have s2: "lifecycleAfter Idle exCycle (NewHandle [] [], exWorld) = Idle"
    by (cases "lifecycleAfter Idle exCycle (NewHandle [] [], exWorld)") simp_all
  from w1 l1 have a1: "Addr (fst exStarted) = Some ''127.0.0.1:8080''"
    by (simp add: exListener_def)
  from w2 s2 have a2: "Addr (fst exAfterCycle) = None"
    by simp
  from s1 s2 a1 a2 l1 l2 show ?thesis
    unfolding r1 r2 by (simp del: run.simps lifecycleAfter.simps)
qed


text \<open>
  Claim C1 as the specification states it, with the state machine driven by what the
  caller observes (a \<^verbatim>\<open>Shutdown\<close> that returns success makes the handle idle), fails
  when the serve task ends on its own. \<^verbatim>\<open>Start\<close> succeeds; \<^verbatim>\<open>Serve\<close> fails with an
  error of its own; the first \<^verbatim>\<open>Shutdown\<close> surfaces that error; the second
  \<^verbatim>\<open>Shutdown\<close> receives nil from the closed channel and returns success. The handle is
  then idle by the state machine, and the serve task has finished, yet the listener
  field is still set and \<^verbatim>\<open>Addr()\<close> still returns its address.
\<close>

theorem listener_after_failed_serve_counterexample:
  "(ln (fst (snd (run exCallsFailed (NewHandle [] [], exWorld)))) \<noteq> None) \<noteq>
     (specState Idle exCallsFailed (fst (run exCallsFailed (NewHandle [] [], exWorld))) = Running)
   \<and> fst (run exCallsFailed (NewHandle [] [], exWorld)) =
       [Returns None, Returns (Some (ErrorString ''accept failed'')), Returns None]
   \<and> specState Idle exCallsFailed (fst (run exCallsFailed (NewHandle [] [], exWorld))) = Idle
   \<and> ln (fst (snd (run exCallsFailed (NewHandle [] [], exWorld)))) =
       Some (tcpKeepAliveListener exListener)
   \<and> Addr (fst (snd (run exCallsFailed (NewHandle [] [], exWorld)))) = Some ''127.0.0.1:8080''
   \<and> map pc (tasks (snd (snd (run exCallsFailed (NewHandle [] [], exWorld))))) = [Exited]"
  by (simp add: exRunFailed Addr_def exListener_def) (simp add: exCallsFailed_def)

end
